theory Spec2Isabelle
  imports Complex_Main "HOL-Library.Sublist" "HOL-Library.Log_Nat"
begin

section \<open>Strings\<close>

text \<open>
  A Python \<^verbatim>\<open>str\<close> is a sequence of code points. The model is \<^typ>\<open>string\<close>, whose
  characters are the code points U+0000 to U+00FF (ASCII and the Latin-1 supplement);
  text beyond that block is outside the model. The three keys of the lookup table and
  all message texts of the script are ASCII.
\<close>

text \<open>
  \<^verbatim>\<open>sub in s\<close> on strings: \<^verbatim>\<open>sub\<close> occurs in \<^verbatim>\<open>s\<close> as a contiguous run of
  characters. The search tries every start position from the left.
\<close>

fun contains :: "string \<Rightarrow> string \<Rightarrow> bool" where
  "contains sub [] = (sub = [])"
| "contains sub (c # cs) = (prefix sub (c # cs) \<or> contains sub cs)"

text \<open>
  \<^verbatim>\<open>str.lower()\<close> on this block works character by character: the upper-case letters
  are A to Z (U+0041 to U+005A) and U+00C0 to U+00DE without the multiplication sign
  U+00D7, and each one is mapped to the code point 32 above it. Every other code point
  of the block is its own lower-case form.
\<close>

definition isupper :: "char \<Rightarrow> bool" where
  "isupper c =
     (let n = (of_char c :: nat)
      in (65 \<le> n \<and> n \<le> 90) \<or> (192 \<le> n \<and> n \<le> 214) \<or> (216 \<le> n \<and> n \<le> 222))"

definition lower_char :: "char \<Rightarrow> char" where
  "lower_char c = (if isupper c then char_of ((of_char c :: nat) + 32) else c)"

definition lower :: "string \<Rightarrow> string" where
  "lower s = map lower_char s"


section \<open>Exceptions and foreign objects\<close>

text \<open>
  The exception classes the script can tell apart. \<^verbatim>\<open>AttributeError\<close> and
  \<^verbatim>\<open>ValueError\<close> are subclasses of \<^verbatim>\<open>Exception\<close>; \<open>Other_Exception\<close> stands for
  every other subclass of \<^verbatim>\<open>Exception\<close>. \<^verbatim>\<open>KeyboardInterrupt\<close> and \<^verbatim>\<open>SystemExit\<close>
  derive from \<^verbatim>\<open>BaseException\<close> only, as does \<open>Other_BaseException\<close>.

  An exception raised by foreign code is a foreign object too: \<^verbatim>\<open>str(e)\<close>, which an
  f-string applies to \<^verbatim>\<open>{e}\<close>, runs its \<^verbatim>\<open>__str__\<close> and gives a text or raises in turn.
\<close>

datatype exn_class =
    AttributeError
  | ValueError
  | Other_Exception
  | KeyboardInterrupt
  | SystemExit
  | Other_BaseException

datatype exn = Exn (exn_class: exn_class) (exn_str: "exn + string")

fun subclass_of_Exception :: "exn_class \<Rightarrow> bool" where
  "subclass_of_Exception AttributeError = True"
| "subclass_of_Exception ValueError = True"
| "subclass_of_Exception Other_Exception = True"
| "subclass_of_Exception KeyboardInterrupt = False"
| "subclass_of_Exception SystemExit = False"
| "subclass_of_Exception Other_BaseException = False"

definition is_AttributeError :: "exn \<Rightarrow> bool" where
  "is_AttributeError e = (exn_class e = AttributeError)"

definition is_Exception :: "exn \<Rightarrow> bool" where
  "is_Exception e = subclass_of_Exception (exn_class e)"

text \<open>
  An object of the agent framework, seen only through what the script does with it:
  reading an attribute, calling it (the script's one argument is always its own tool
  list), \<^verbatim>\<open>str\<close> (which \<^verbatim>\<open>print\<close> applies) and the printed form of \<^verbatim>\<open>dir\<close>. Each of
  these runs foreign code and may raise.
\<close>

datatype pyobj =
  PyObj (py_getattr: "string \<Rightarrow> exn + pyobj")
        (py_call: "exn + pyobj")
        (py_str: "exn + string")
        (py_dir: "exn + string")

text \<open>
  \<^verbatim>\<open>hasattr(obj, name)\<close> reads the attribute; it is false when that raises
  \<^verbatim>\<open>AttributeError\<close> and lets every other exception through.
\<close>

definition hasattr :: "pyobj \<Rightarrow> string \<Rightarrow> exn + bool" where
  "hasattr obj name =
     (case py_getattr obj name of
        Inr v \<Rightarrow> Inr True
      | Inl e \<Rightarrow> if is_AttributeError e then Inr False else Inl e)"


section \<open>Floating-point numbers\<close>

text \<open>
  A Python \<^verbatim>\<open>float\<close> is an IEEE-754 binary64 value: a signed infinity, a NaN, or a
  finite number given by a sign, a significand \<open>m\<close> and an exponent \<open>e\<close>, with the value
  \<open>m * 2 ^ e\<close>, \<open>0 \<le> m < 2 ^ 53\<close> and \<open>-1074 \<le> e \<le> 971\<close>. Zero has a sign as well.
  Different triples can denote the same number; the arithmetic returns the one with
  the largest significand.
\<close>

datatype pyfloat =
    Finite (negative: bool) (significand: int) (exponent: int)
  | Infinity bool
  | NaN

fun is_double :: "pyfloat \<Rightarrow> bool" where
  "is_double (Finite s m e) = (0 \<le> m \<and> m < 2 ^ 53 \<and> - 1074 \<le> e \<and> e \<le> 971)"
| "is_double (Infinity s) = True"
| "is_double NaN = True"

text \<open>The real number a float denotes; infinities and NaN denote none.\<close>

fun real_of :: "pyfloat \<Rightarrow> real option" where
  "real_of (Finite s m e) = Some ((if s then - 1 else 1) * of_int m * 2 powi e)"
| "real_of (Infinity s) = None"
| "real_of NaN = None"

text \<open>
  \<open>m / 2 ^ k\<close> rounded to the nearest integer, a tie going to the even one: the \<open>k\<close> low
  bits \<open>r\<close> are cut off, and the rest \<open>q\<close> goes up by one when \<open>r\<close> is more than half of
  \<open>2 ^ k\<close>, or exactly half with \<open>q\<close> odd.
\<close>

definition round_half_even :: "int \<Rightarrow> nat \<Rightarrow> int" where
  "round_half_even m k =
     (let q = m div 2 ^ k;
          r = m mod 2 ^ k
      in if 2 ^ k < 2 * r \<or> (2 * r = 2 ^ k \<and> q mod 2 = 1) then q + 1 else q)"

text \<open>
  Rounding of the exact magnitude \<open>m * 2 ^ e\<close> (any \<open>m \<ge> 0\<close>, any \<open>e\<close>) to binary64 in
  the default mode, round to nearest with ties to even. \<open>t\<close> is the exponent of the
  result: the one that leaves 53 bits of \<open>m\<close>, but not below the subnormal exponent.
  The significand \<open>q\<close> is \<open>m\<close> scaled to that exponent, exact when \<open>t \<le> e\<close> and rounded
  otherwise; rounding up can carry into the next exponent. A result beyond the largest
  finite number is an infinity.
\<close>

definition round_double :: "bool \<Rightarrow> int \<Rightarrow> int \<Rightarrow> pyfloat" where
  "round_double s m e =
     (if m \<le> 0 then Finite s 0 (- 1074)
      else
        let t = max (e + bitlen m - 53) (- 1074);
            q = (if t \<le> e then m * 2 ^ nat (e - t) else round_half_even m (nat (t - e)))
        in if q = 2 ^ 53 then
             (if 971 < t + 1 then Infinity s else Finite s (2 ^ 52) (t + 1))
           else if 971 < t then Infinity s
           else Finite s q t)"

text \<open>
  Addition. NaN gives NaN; infinities of opposite sign give NaN; an exact sum of zero is
  negative only when both operands are; every other sum is the exact sum, rounded.
\<close>

fun fadd :: "pyfloat \<Rightarrow> pyfloat \<Rightarrow> pyfloat" where
  "fadd NaN b = NaN"
| "fadd a NaN = NaN"
| "fadd (Infinity s) (Infinity t) = (if s = t then Infinity s else NaN)"
| "fadd (Infinity s) (Finite t m e) = Infinity s"
| "fadd (Finite s m e) (Infinity t) = Infinity t"
| "fadd (Finite s1 m1 e1) (Finite s2 m2 e2) =
     (let e = min e1 e2;
          m = (if s1 then - m1 else m1) * 2 ^ nat (e1 - e)
            + (if s2 then - m2 else m2) * 2 ^ nat (e2 - e)
      in if m = 0 then Finite (s1 \<and> s2) 0 (- 1074) else round_double (m < 0) \<bar>m\<bar> e)"

text \<open>
  Multiplication. NaN gives NaN; an infinity times zero gives NaN; the sign of every
  other product is negative when exactly one operand's is; a finite product is the
  exact product, rounded.
\<close>

fun fmul :: "pyfloat \<Rightarrow> pyfloat \<Rightarrow> pyfloat" where
  "fmul NaN b = NaN"
| "fmul a NaN = NaN"
| "fmul (Infinity s) (Infinity t) = Infinity (s \<noteq> t)"
| "fmul (Infinity s) (Finite t m e) = (if m = 0 then NaN else Infinity (s \<noteq> t))"
| "fmul (Finite s m e) (Infinity t) = (if m = 0 then NaN else Infinity (s \<noteq> t))"
| "fmul (Finite s1 m1 e1) (Finite s2 m2 e2) = round_double (s1 \<noteq> s2) (m1 * m2) (e1 + e2)"

text \<open>\<^verbatim>\<open>a + b\<close> and \<^verbatim>\<open>a * b\<close> on floats are these two operations.\<close>

instantiation pyfloat :: "{plus, times}"
begin

definition plus_pyfloat :: "pyfloat \<Rightarrow> pyfloat \<Rightarrow> pyfloat" where
  "plus_pyfloat a b = fadd a b"

definition times_pyfloat :: "pyfloat \<Rightarrow> pyfloat \<Rightarrow> pyfloat" where
  "times_pyfloat a b = fmul a b"

instance ..

end


section \<open>Process state\<close>

text \<open>
  A tool descriptor as the script builds it: the wrapped function and the name given to
  \<^verbatim>\<open>FunctionTool.from_defaults\<close>. The description and the parameter schema are derived
  by the framework and are not modelled.
\<close>

datatype py_function = Fn_multiply | Fn_add | Fn_search_wikipedia

record tool =
  tool_fn :: py_function
  tool_name :: string

datatype llm = LLM (llm_model: string) (llm_api_key: string)

text \<open>The calls into the agent framework, recorded when they are made.\<close>

datatype event =
    Construct_tool tool
  | Construct_llm string string
  | Construct_agent "tool list"
  | Send_chat string

text \<open>
  The state the script can see or change: the process environment \<^verbatim>\<open>os.environ\<close>, the
  key/value pairs of the \<^verbatim>\<open>.env\<close> file that \<^verbatim>\<open>load_dotenv\<close> finds (empty when there
  is none), the texts written to standard output (one entry for each \<^verbatim>\<open>print\<close> call,
  without the newline that \<^verbatim>\<open>print\<close> appends), and the framework calls so far, in
  order. Standard output is taken to accept every text written to it.
\<close>

record world =
  environ :: "string \<rightharpoonup> string"
  dotenv :: "string \<rightharpoonup> string"
  stdout :: "string list"
  events :: "event list"

definition print :: "string \<Rightarrow> world \<Rightarrow> world" where
  "print s w = w\<lparr>stdout := stdout w @ [s]\<rparr>"


section \<open>The three tool functions\<close>

text \<open>
  Python's \<^verbatim>\<open>a * b\<close> and \<^verbatim>\<open>a + b\<close> are the operations of the operands' own numeric
  type, so the number type is a parameter \<open>'n\<close> of the two functions. The script
  declares the arguments as \<^verbatim>\<open>float\<close>, and the agent calls the functions with floats:
  the instance that the script runs and the claims are about is \<^typ>\<open>pyfloat\<close>. How a
  number is rendered inside an f-string is Python's \<^verbatim>\<open>format\<close> builtin, taken as the
  parameter \<open>fmt\<close>.

  Each function takes the state and returns the new state with the value. In
  \<open>search_wikipedia\<close> the argument is \<open>query0\<close>, and \<open>query\<close> is what the name holds
  after \<^verbatim>\<open>query = query.lower()\<close>: the diagnostic line shows the argument, the
  not-found message the lower-cased text.
\<close>

definition multiply :: "('n \<Rightarrow> string) \<Rightarrow> 'n::times \<Rightarrow> 'n \<Rightarrow> world \<Rightarrow> world \<times> 'n" where
  "multiply fmt a b w =
     (let w1 = print (''--- Calling Multiply Tool with: a='' @ fmt a @ '', b='' @ fmt b @ '' ---'') w
      in (w1, a * b))"

definition add :: "('n \<Rightarrow> string) \<Rightarrow> 'n::plus \<Rightarrow> 'n \<Rightarrow> world \<Rightarrow> world \<times> 'n" where
  "add fmt a b w =
     (let w1 = print (''--- Calling Add Tool with: a='' @ fmt a @ '', b='' @ fmt b @ '' ---'') w
      in (w1, a + b))"

definition search_wikipedia :: "string \<Rightarrow> world \<Rightarrow> world \<times> string" where
  "search_wikipedia query0 w =
     (let w1 = print (''--- Calling Wikipedia Tool with query: '' @ query0 @ '' ---'') w;
          query = lower query0
      in if contains ''alan turing'' query then
           (w1, ''Alan Turing was a British mathematician, computer scientist, logician, cryptanalyst, philosopher, and theoretical biologist. He was highly influential in the development of theoretical computer science.'')
         else if contains ''llama'' query then
           (w1, ''A llama is a domesticated South American camelid, widely used as a meat and pack animal by Andean cultures since the Pre-Columbian era.'')
         else if contains ''react agent'' query then
           (w1, ''A ReAct Agent combines Reasoning and Acting within large language models. It generates verbal reasoning traces and actions pertaining to a task, allowing for dynamic reasoning, tool use, and information gathering.'')
         else
           (w1, ''Couldn't find information about '' @ [CHR 0x27] @ query @ [CHR 0x27]
                  @ '' on Fake Wikipedia.''))"


section \<open>Statements of the script\<close>

text \<open>
  A statement runs in a state and ends in a new state, either normally with a value or
  with a raised exception. \<open>bindE\<close> is sequencing: the second statement does not run
  when the first one raises.
\<close>

type_synonym 'a action = "world \<Rightarrow> world \<times> (exn + 'a)"

definition ret :: "'a \<Rightarrow> 'a action" where
  "ret x w = (w, Inr x)"

definition raise :: "exn \<Rightarrow> 'a action" where
  "raise e w = (w, Inl e)"

definition bindE :: "'a action \<Rightarrow> ('a \<Rightarrow> 'b action) \<Rightarrow> 'b action" where
  "bindE m f w = (case m w of (w1, Inl e) \<Rightarrow> (w1, Inl e) | (w1, Inr x) \<Rightarrow> f x w1)"

text \<open>An operation on a foreign object: the state stays, the outcome is the object's.\<close>

definition probe :: "exn + 'a \<Rightarrow> 'a action" where
  "probe r w = (w, r)"

text \<open>\<^verbatim>\<open>print(text)\<close> and \<^verbatim>\<open>print(obj)\<close>; the latter applies \<^verbatim>\<open>str\<close> first.\<close>

definition say :: "string \<Rightarrow> unit action" where
  "say s w = (print s w, Inr ())"

definition print_obj :: "pyobj \<Rightarrow> unit action" where
  "print_obj obj = bindE (probe (py_str obj)) say"

definition framework_call :: "event \<Rightarrow> unit action" where
  "framework_call ev w = (w\<lparr>events := events w @ [ev]\<rparr>, Inr ())"

abbreviation newline :: string where
  "newline \<equiv> [CHR 0x0A]"


section \<open>Configuration\<close>

text \<open>
  \<^verbatim>\<open>load_dotenv()\<close> with its default \<^verbatim>\<open>override=False\<close> adds the pairs of the
  \<^verbatim>\<open>.env\<close> file to the process environment and keeps every variable that is already
  set. \<^verbatim>\<open>os.getenv\<close> gives \<^verbatim>\<open>None\<close> for a variable that is not set.
\<close>

definition load_dotenv :: "unit action" where
  "load_dotenv w = (w\<lparr>environ := dotenv w ++ environ w\<rparr>, Inr ())"

definition getenv :: "string \<Rightarrow> string option action" where
  "getenv k w = (w, Inr (environ w k))"


section \<open>Tool registry\<close>

definition FunctionTool_from_defaults :: "py_function \<Rightarrow> string \<Rightarrow> tool" where
  "FunctionTool_from_defaults f n = \<lparr>tool_fn = f, tool_name = n\<rparr>"

definition multiply_tool :: tool where
  "multiply_tool = FunctionTool_from_defaults Fn_multiply ''multiply_numbers''"

definition add_tool :: tool where
  "add_tool = FunctionTool_from_defaults Fn_add ''add_numbers''"

definition wikipedia_tool :: tool where
  "wikipedia_tool = FunctionTool_from_defaults Fn_search_wikipedia ''wikipedia_search''"

definition tools :: "tool list" where
  "tools = [multiply_tool, add_tool, wikipedia_tool]"


section \<open>The agent delegate\<close>

text \<open>
  What \<^verbatim>\<open>agent.chat\<close> does is decided by the framework and the language model. Seen
  from the script it is a strategy over the three registered functions: it ends with a
  response or raises, writes its own output (\<^verbatim>\<open>verbose=True\<close>), or calls one of the
  functions and goes on with the value that comes back.
\<close>

datatype 'n delegate =
    Respond pyobj
  | Fail exn
  | Emit string "'n delegate"
  | Use_multiply 'n 'n "'n \<Rightarrow> 'n delegate"
  | Use_add 'n 'n "'n \<Rightarrow> 'n delegate"
  | Use_search_wikipedia string "string \<Rightarrow> 'n delegate"

primrec run_delegate :: "('n::{plus,times} \<Rightarrow> string) \<Rightarrow> 'n delegate \<Rightarrow> pyobj action" where
  "run_delegate fmt (Respond r) = ret r"
| "run_delegate fmt (Fail e) = raise e"
| "run_delegate fmt (Emit s d) = (\<lambda>w. run_delegate fmt d (print s w))"
| "run_delegate fmt (Use_multiply a b k) =
     (\<lambda>w. case multiply fmt a b w of (w1, r) \<Rightarrow> run_delegate fmt (k r) w1)"
| "run_delegate fmt (Use_add a b k) =
     (\<lambda>w. case add fmt a b w of (w1, r) \<Rightarrow> run_delegate fmt (k r) w1)"
| "run_delegate fmt (Use_search_wikipedia q k) =
     (\<lambda>w. case search_wikipedia q w of (w1, r) \<Rightarrow> run_delegate fmt (k r) w1)"

text \<open>
  The agent object: its attributes, which the introspection reads, and its \<^verbatim>\<open>chat\<close>
  method. The two constructors of the framework may raise.
\<close>

record 'n agent =
  agent_obj :: pyobj
  agent_chat :: "string \<Rightarrow> 'n delegate"

record 'n llama_index =
  GoogleGenAI :: "string \<Rightarrow> string \<Rightarrow> exn + llm"
  ReActAgent_from_tools :: "tool list \<Rightarrow> llm \<Rightarrow> bool \<Rightarrow> exn + 'n agent"


section \<open>Diagnostic introspection\<close>

text \<open>The body of the \<^verbatim>\<open>try\<close> block, statement by statement.\<close>

definition introspection_body :: "pyobj \<Rightarrow> unit action" where
  "introspection_body agent =
     bindE (probe (py_getattr agent ''agent_worker'')) (\<lambda>agent_worker.
     bindE (probe (hasattr agent_worker ''_react_chat_formatter'')) (\<lambda>has_formatter.
     if has_formatter then
       bindE (probe (py_getattr agent_worker ''_react_chat_formatter'')) (\<lambda>formatter.
       bindE (probe (hasattr formatter ''system_header'')) (\<lambda>has_header.
       if has_header then
         bindE (probe (py_getattr formatter ''system_header'')) (\<lambda>system_prompt.
         bindE (say (newline @ ''--- System Prompt ---'')) (\<lambda>_.
         bindE (print_obj system_prompt) (\<lambda>_.
         bindE (say (''---------------------'' @ newline)) (\<lambda>_.
         bindE (probe (hasattr formatter ''_get_tool_description'')) (\<lambda>has_description.
         if has_description then
           bindE (probe (py_getattr formatter ''_get_tool_description'')) (\<lambda>method.
           bindE (probe (py_call method)) (\<lambda>tool_desc.
           bindE (say (newline @ ''--- Generated Tool Description (Part of Prompt) ---'')) (\<lambda>_.
           bindE (print_obj tool_desc) (\<lambda>_.
           say (''----------------------------------------------------'' @ newline)))))
         else
           say ''(Could not find method to get formatted tool description)'')))))
       else
         bindE (say ''Could not find 'system_header' attribute on the formatter.'') (\<lambda>_.
         bindE (say ''Agent's internal structure might have changed.'') (\<lambda>_.
         bindE (probe (py_dir formatter)) (\<lambda>names.
         say (''Try inspecting formatter attributes: '' @ names))))))
     else
       bindE (probe (hasattr agent_worker ''get_system_prompt'')) (\<lambda>has_method.
       if has_method then
         bindE (probe (py_getattr agent_worker ''get_system_prompt'')) (\<lambda>method.
         bindE (probe (py_call method)) (\<lambda>system_prompt.
         bindE (say (newline @ ''--- System Prompt (via get_system_prompt) ---'')) (\<lambda>_.
         bindE (print_obj system_prompt) (\<lambda>_.
         say (''---------------------------------------------'' @ newline)))))
       else
         bindE (say ''Could not find '_react_chat_formatter' or 'get_system_prompt' on the agent worker.'') (\<lambda>_.
         bindE (say ''Agent's internal structure might differ based on LlamaIndex version.'') (\<lambda>_.
         bindE (probe (py_dir agent_worker)) (\<lambda>names.
         say (''Try inspecting agent_worker attributes: '' @ names)))))))"

text \<open>
  The two handlers. Each starts with a \<^verbatim>\<open>print\<close> of an f-string over \<^verbatim>\<open>{e}\<close>: the text
  of the exception is formed first, and when that raises nothing is printed and the new
  exception leaves the handler.
\<close>

definition on_AttributeError :: "exn \<Rightarrow> unit action" where
  "on_AttributeError e =
     bindE (probe (exn_str e)) (\<lambda>text.
     bindE (say (newline @ ''Error accessing internal agent attributes: '' @ text)) (\<lambda>_.
     bindE (say ''This often happens if LlamaIndex internal structure has changed between versions.'') (\<lambda>_.
     say ''Try inspecting the agent object directly:'')))"

definition on_Exception :: "exn \<Rightarrow> unit action" where
  "on_Exception e =
     bindE (probe (exn_str e)) (\<lambda>text.
     say (newline @ ''An unexpected error occurred: '' @ text))"

text \<open>
  \<^verbatim>\<open>try: ... except AttributeError as e: ... except Exception as e: ...\<close>: the first
  clause whose class the exception belongs to handles it; an exception of neither
  class goes on to the caller, and so does an exception raised inside a handler.
\<close>

definition introspection :: "pyobj \<Rightarrow> unit action" where
  "introspection agent w =
     (case introspection_body agent w of
        (w1, Inr u) \<Rightarrow> (w1, Inr u)
      | (w1, Inl e) \<Rightarrow>
          if is_AttributeError e then on_AttributeError e w1
          else if is_Exception e then on_Exception e w1
          else (w1, Inl e))"


section \<open>The script\<close>

text \<open>
  The module body from \<^verbatim>\<open>load_dotenv()\<close> to the end. The imports are taken to succeed.
  \<^verbatim>\<open>not google_api_key\<close> holds for \<^verbatim>\<open>None\<close> and for the empty string.
\<close>

definition credential_error :: exn where
  "credential_error =
     Exn ValueError
       (Inr ''GOOGLE_API_KEY not found in environment variables. Please set it in your .env file.'')"

definition question :: string where
  "question = ''Who was Alan Turing and what is 5 added to 12.5?''"

definition run_agent :: "('n::{plus,times} \<Rightarrow> string) \<Rightarrow> 'n llama_index \<Rightarrow> string \<Rightarrow> unit action" where
  "run_agent fmt lib google_api_key =
     bindE (framework_call (Construct_tool multiply_tool)) (\<lambda>_.
     bindE (framework_call (Construct_tool add_tool)) (\<lambda>_.
     bindE (framework_call (Construct_tool wikipedia_tool)) (\<lambda>_.
     bindE (framework_call (Construct_llm ''gemini-2.0-flash-lite'' google_api_key)) (\<lambda>_.
     bindE (probe (GoogleGenAI lib ''gemini-2.0-flash-lite'' google_api_key)) (\<lambda>llm.
     bindE (framework_call (Construct_agent tools)) (\<lambda>_.
     bindE (probe (ReActAgent_from_tools lib tools llm True)) (\<lambda>agent.
     bindE (say ''--- Starting Agent ---'') (\<lambda>_.
     bindE (framework_call (Send_chat question)) (\<lambda>_.
     bindE (run_delegate fmt (agent_chat agent question)) (\<lambda>response.
     bindE (say (newline @ ''--- Final Answer ---'')) (\<lambda>_.
     bindE (print_obj response) (\<lambda>_.
     bindE (say (newline @ ''--- Agent Finished ---'')) (\<lambda>_.
     introspection (agent_obj agent))))))))))))))"

definition main :: "('n::{plus,times} \<Rightarrow> string) \<Rightarrow> 'n llama_index \<Rightarrow> unit action" where
  "main fmt lib =
     bindE load_dotenv (\<lambda>_.
     bindE (getenv ''GOOGLE_API_KEY'') (\<lambda>google_api_key.
     case google_api_key of
       None \<Rightarrow> raise credential_error
     | Some k \<Rightarrow> if k = [] then raise credential_error else run_agent fmt lib k))"



section \<open>Reference definitions for the theorems\<close>

text \<open>
  The lookup table as the specification describes it: three entries, keyed by
  substring, in the order in which they are tried. \<open>first_match\<close> is the lookup that
  the specification's words give: the entry of the first key, in table order, that
  occurs in the lower-cased query, and the not-found message when there is none.
\<close>

definition fake_wikipedia :: "(string \<times> string) list" where
  "fake_wikipedia =
     [(''alan turing'',
       ''Alan Turing was a British mathematician, computer scientist, logician, cryptanalyst, philosopher, and theoretical biologist. He was highly influential in the development of theoretical computer science.''),
      (''llama'',
       ''A llama is a domesticated South American camelid, widely used as a meat and pack animal by Andean cultures since the Pre-Columbian era.''),
      (''react agent'',
       ''A ReAct Agent combines Reasoning and Acting within large language models. It generates verbal reasoning traces and actions pertaining to a task, allowing for dynamic reasoning, tool use, and information gathering.'')]"

definition not_found :: "string \<Rightarrow> string" where
  "not_found q = ''Couldn't find information about '' @ [CHR 0x27] @ q @ [CHR 0x27]
                   @ '' on Fake Wikipedia.''"

definition first_match :: "string \<Rightarrow> string" where
  "first_match q =
     (case find (\<lambda>(key, entry). contains key (lower q)) fake_wikipedia of
        Some (key, entry) \<Rightarrow> entry
      | None \<Rightarrow> not_found (lower q))"

text \<open>A state to run examples in: nothing set, nothing printed, nothing called.\<close>

definition fresh_world :: world where
  "fresh_world = \<lparr>environ = Map.empty, dotenv = Map.empty, stdout = [], events = []\<rparr>"


text \<open>
  Objects and a framework to run examples with: an object that has no attributes, is
  not callable and prints as the given text; an agent object whose worker has neither
  the formatter nor the prompt method; an object on which every operation is cut short
  by \<^verbatim>\<open>KeyboardInterrupt\<close>; and a framework whose agent looks up Alan Turing, adds 5
  and 12.5 and answers with what the lookup gave.
\<close>

definition text_obj :: "string \<Rightarrow> pyobj" where
  "text_obj s =
     PyObj (\<lambda>name. Inl (Exn AttributeError (Inr (''object has no attribute '' @ name))))
           (Inl (Exn Other_Exception (Inr ''object is not callable'')))
           (Inr s)
           (Inr ''[]'')"

definition agent_with_bare_worker :: pyobj where
  "agent_with_bare_worker =
     PyObj (\<lambda>name. if name = ''agent_worker'' then Inr (text_obj ''<worker>'')
                    else Inl (Exn AttributeError (Inr (''object has no attribute '' @ name))))
           (Inl (Exn Other_Exception (Inr ''object is not callable'')))
           (Inr ''<agent>'')
           (Inr (''['' @ [CHR 0x27] @ ''agent_worker'' @ [CHR 0x27] @ '']''))"

definition interrupted :: pyobj where
  "interrupted =
     PyObj (\<lambda>name. Inl (Exn KeyboardInterrupt (Inr [])))
           (Inl (Exn KeyboardInterrupt (Inr [])))
           (Inl (Exn KeyboardInterrupt (Inr [])))
           (Inl (Exn KeyboardInterrupt (Inr [])))"

definition demo_fmt :: "pyfloat \<Rightarrow> string" where
  "demo_fmt x = ''<float>''"

definition float_5 :: pyfloat where
  "float_5 = Finite False 5629499534213120 (- 50)"

definition float_12_5 :: pyfloat where
  "float_12_5 = Finite False 7036874417766400 (- 49)"

definition demo_agent :: "pyfloat agent" where
  "demo_agent =
     \<lparr>agent_obj = agent_with_bare_worker,
      agent_chat = (\<lambda>q. Use_search_wikipedia ''Alan Turing'' (\<lambda>found.
                         Use_add float_5 float_12_5 (\<lambda>total. Respond (text_obj found))))\<rparr>"

definition demo_lib :: "pyfloat llama_index" where
  "demo_lib =
     \<lparr>GoogleGenAI = (\<lambda>model key. Inr (LLM model key)),
      ReActAgent_from_tools = (\<lambda>ts l verbose. Inr demo_agent)\<rparr>"

definition keyed_world :: world where
  "keyed_world = fresh_world\<lparr>dotenv := [''GOOGLE_API_KEY'' \<mapsto> ''secret'']\<rparr>"

text \<open>
  A real number is representable when some float denotes it. The floats 1e16, 1.0 and
  134217729.0 (which is \<open>2 ^ 27 + 1\<close>) are used in the examples.
\<close>

definition representable :: "real \<Rightarrow> bool" where
  "representable x = (\<exists>c. is_double c \<and> real_of c = Some x)"

definition float_1e16 :: pyfloat where
  "float_1e16 = Finite False 5000000000000000 1"

definition float_1 :: pyfloat where
  "float_1 = Finite False 4503599627370496 (- 52)"

definition float_134217729 :: pyfloat where
  "float_134217729 = Finite False 4503599660924928 (- 25)"

text \<open>
  More objects for examples: an object with the given attributes that prints as the
  given text; a method that returns the given object; agent objects whose formatter
  lacks \<^verbatim>\<open>system_header\<close>, lacks \<^verbatim>\<open>_get_tool_description\<close>, or has both; and agent
  objects whose attribute access raises an exception of class \<^verbatim>\<open>Exception\<close>, raises
  \<^verbatim>\<open>SystemExit\<close>, or raises an exception whose \<^verbatim>\<open>__str__\<close> raises.
\<close>

definition obj_with :: "(string \<times> pyobj) list \<Rightarrow> string \<Rightarrow> pyobj" where
  "obj_with attrs s =
     PyObj (\<lambda>name. case map_of attrs name of
                      Some v \<Rightarrow> Inr v
                    | None \<Rightarrow> Inl (Exn AttributeError (Inr (''object has no attribute '' @ name))))
           (Inl (Exn Other_Exception (Inr ''object is not callable'')))
           (Inr s)
           (Inr (concat (map (\<lambda>(name, v). name @ '' '') attrs)))"

definition method_returning :: "pyobj \<Rightarrow> pyobj" where
  "method_returning result =
     PyObj (\<lambda>name. Inl (Exn AttributeError (Inr (''object has no attribute '' @ name))))
           (Inr result)
           (Inr ''<bound method>'')
           (Inr [])"

definition agent_without_header :: pyobj where
  "agent_without_header =
     obj_with [(''agent_worker'',
       obj_with [(''_react_chat_formatter'', obj_with [] ''<formatter>'')] ''<worker>'')] ''<agent>''"

definition agent_without_description :: pyobj where
  "agent_without_description =
     obj_with [(''agent_worker'',
       obj_with [(''_react_chat_formatter'',
         obj_with [(''system_header'', obj_with [] ''You are designed to help.'')] ''<formatter>'')]
         ''<worker>'')] ''<agent>''"

definition agent_complete :: pyobj where
  "agent_complete =
     obj_with [(''agent_worker'',
       obj_with [(''_react_chat_formatter'',
         obj_with [(''system_header'', obj_with [] ''You are designed to help.''),
                   (''_get_tool_description'', method_returning (obj_with [] ''> Tool Name: add_numbers''))]
           ''<formatter>'')]
         ''<worker>'')] ''<agent>''"

definition agent_failing :: pyobj where
  "agent_failing =
     PyObj (\<lambda>name. Inl (Exn Other_Exception (Inr ''connection lost'')))
           (Inl (Exn Other_Exception (Inr ''connection lost'')))
           (Inl (Exn Other_Exception (Inr ''connection lost'')))
           (Inl (Exn Other_Exception (Inr ''connection lost'')))"

definition agent_exiting :: pyobj where
  "agent_exiting =
     PyObj (\<lambda>name. Inl (Exn SystemExit (Inr ''1'')))
           (Inl (Exn SystemExit (Inr ''1'')))
           (Inl (Exn SystemExit (Inr ''1'')))
           (Inl (Exn SystemExit (Inr ''1'')))"

definition unprintable :: exn where
  "unprintable = Exn Other_Exception (Inl (Exn ValueError (Inr ''bad __str__'')))"

definition agent_unprintable :: pyobj where
  "agent_unprintable =
     PyObj (\<lambda>name. Inl unprintable) (Inl unprintable) (Inl unprintable) (Inl unprintable)"

text \<open>
  Two properties of statements, used to reason about the introspection block: a
  statement that changes nothing but standard output, and only by writing more to it;
  and one that, in addition, has written something whenever it ends normally.
\<close>

definition only_prints :: "'a action \<Rightarrow> bool" where
  "only_prints m =
     (\<forall>w. environ (fst (m w)) = environ w \<and> dotenv (fst (m w)) = dotenv w
          \<and> events (fst (m w)) = events w \<and> prefix (stdout w) (stdout (fst (m w))))"

definition prints_on_success :: "'a action \<Rightarrow> bool" where
  "prints_on_success m =
     (only_prints m
      \<and> (\<forall>w x. snd (m w) = Inr x \<longrightarrow> length (stdout w) < length (stdout (fst (m w)))))"


section \<open>Facts about strings\<close>

lemma contains_sublist: "contains sub s = sublist sub s"
  by (induction s) (simp_all add: sublist_Cons_right)

text \<open>\<open>contains\<close> is the substring relation: some text before, the needle, some text after.\<close>

lemma contains_iff: "contains sub s \<longleftrightarrow> (\<exists>ps ss. s = ps @ sub @ ss)"
  by (simp add: contains_sublist sublist_def)

lemma contains_middle: "contains s (ps @ s @ ss)"
  unfolding contains_iff by blast

lemma of_char_bound: "(of_char c :: nat) < 256"
proof -
  have "(of_char c :: nat) mod 256 = of_char c"
    by (rule of_char_mod_256)
  moreover have "(of_char c :: nat) mod 256 < 256"
    by simp
  ultimately show ?thesis
    by simp
qed

lemma lower_char_idem: "lower_char (lower_char c) = lower_char c"
proof (cases "isupper c")
  case False
  then show ?thesis
    by (simp add: lower_char_def)
next
  case True
  have "\<not> isupper (char_of ((of_char c :: nat) + 32))"
    using True of_char_bound[of c] by (auto simp: isupper_def Let_def)
  then show ?thesis
    by (simp add: lower_char_def)
qed

lemma lower_idem: "lower (lower q) = lower q"
  by (simp add: lower_def lower_char_idem)


section \<open>The lookup tool\<close>

lemma snd_search_wikipedia:
  "snd (search_wikipedia q w) =
     (if contains ''alan turing'' (lower q) then
        ''Alan Turing was a British mathematician, computer scientist, logician, cryptanalyst, philosopher, and theoretical biologist. He was highly influential in the development of theoretical computer science.''
      else if contains ''llama'' (lower q) then
        ''A llama is a domesticated South American camelid, widely used as a meat and pack animal by Andean cultures since the Pre-Columbian era.''
      else if contains ''react agent'' (lower q) then
        ''A ReAct Agent combines Reasoning and Acting within large language models. It generates verbal reasoning traces and actions pertaining to a task, allowing for dynamic reasoning, tool use, and information gathering.''
      else ''Couldn't find information about '' @ [CHR 0x27] @ lower q @ [CHR 0x27]
             @ '' on Fake Wikipedia.'')"
  by (simp add: search_wikipedia_def Let_def)

text \<open>
  C4. The value returned for \<^verbatim>\<open>"Alan Turing"\<close> contains \<^verbatim>\<open>"British mathematician"\<close>, the
  value for \<^verbatim>\<open>"llama"\<close> contains \<^verbatim>\<open>"camelid"\<close>, and the value for \<^verbatim>\<open>"react agent"\<close>
  contains \<^verbatim>\<open>"Reasoning and Acting"\<close>, in whatever state the function is called.
\<close>

theorem search_wikipedia_known_entries:
  "contains ''British mathematician'' (snd (search_wikipedia ''Alan Turing'' w))
   \<and> contains ''camelid'' (snd (search_wikipedia ''llama'' w))
   \<and> contains ''Reasoning and Acting'' (snd (search_wikipedia ''react agent'' w))"
  by code_simp

text \<open>
  C10. Lower-casing the query first does not change the value returned: for every query
  \<open>q\<close>, \<open>search_wikipedia (lower q)\<close> and \<open>search_wikipedia q\<close> return the same
  string, whatever the states of the two calls. This includes the not-found message,
  which quotes \<open>lower q\<close> in both calls.
\<close>

theorem search_wikipedia_lower_invariant:
  "snd (search_wikipedia (lower q) w') = snd (search_wikipedia q w)"
  by (simp only: snd_search_wikipedia lower_idem)


section \<open>The arithmetic tools\<close>

lemma powi_shift_up:
  fixes e t :: int
  assumes "t \<le> e"
  shows "(2::real) powi e = 2 ^ nat (e - t) * 2 powi t"
proof -
  define n where "n = nat (e - t)"
  have e: "e = int n + t"
    using assms by (simp add: n_def)
  have "(2::real) powi (int n + t) = 2 powi int n * 2 powi t"
    by (rule power_int_add) simp
  then show ?thesis
    unfolding e[symmetric] n_def[symmetric] power_int_of_nat .
qed

lemma bitlen_pos_bounds:
  assumes "0 < m"
  shows "1 \<le> bitlen m" and "m < 2 ^ nat (bitlen m)" and "2 ^ nat (bitlen m - 1) \<le> m"
  using bitlen_bounds[OF assms] assms bitlen_eq_zero_iff[of m] bitlen_nonneg[of m]
  by (auto simp: order_less_le)

lemma div_times_le:
  fixes m P :: int
  assumes "0 < P"
  shows "m div P * P \<le> m"
proof -
  have "m div P * P + m mod P = m" by simp
  moreover have "0 \<le> m mod P" using assms by simp
  ultimately show ?thesis by linarith
qed

lemma div_less_bound:
  fixes m P N :: int
  assumes "0 < P" "m < N * P"
  shows "m div P < N"
proof (rule ccontr)
  assume "\<not> m div P < N"
  then have "N \<le> m div P" by simp
  then have "N * P \<le> m div P * P"
    using assms(1) by (simp add: mult_right_mono)
  also have "\<dots> \<le> m" using assms(1) by (rule div_times_le)
  finally show False using assms(2) by simp
qed

lemma pow2_le_mono:
  fixes a b :: int
  assumes "a \<le> b"
  shows "(2::int) ^ nat a \<le> 2 ^ nat b"
  using assms by (intro power_increasing) auto

lemma round_half_even_bounds:
  assumes "0 \<le> m" "m < N * 2 ^ k"
  shows "0 \<le> round_half_even m k" and "round_half_even m k \<le> N"
proof -
  have "m div 2 ^ k < N"
    using assms(2) by (intro div_less_bound) simp_all
  moreover have "0 \<le> m div 2 ^ k"
    using assms(1) by (simp add: pos_imp_zdiv_nonneg_iff)
  ultimately show "0 \<le> round_half_even m k" and "round_half_even m k \<le> N"
    by (auto simp: round_half_even_def Let_def)
qed

lemma round_half_even_exact:
  assumes "2 ^ k dvd m"
  shows "round_half_even m k = m div 2 ^ k"
proof -
  have "m mod 2 ^ k = 0"
    using assms by simp
  then show ?thesis
    by (simp add: round_half_even_def Let_def)
qed

text \<open>Results of rounding are floats.\<close>

lemma round_double_is_double: "is_double (round_double s m e)"
proof (cases "m \<le> 0")
  case True
  then show ?thesis by (simp add: round_double_def)
next
  case False
  then have pos: "0 < m" by simp
  define L where "L = bitlen m"
  define t where "t = max (e + L - 53) (- 1074)"
  define q where "q = (if t \<le> e then m * 2 ^ nat (e - t) else round_half_even m (nat (t - e)))"
  have L1: "1 \<le> L" and up: "m < 2 ^ nat L"
    using bitlen_pos_bounds[OF pos] by (simp_all add: L_def)
  have t_lo: "- 1074 \<le> t" and t_ge: "e + L - 53 \<le> t"
    by (simp_all add: t_def)
  have eq: "round_double s m e =
      (if q = 2 ^ 53 then (if 971 < t + 1 then Infinity s else Finite s (2 ^ 52) (t + 1))
       else if 971 < t then Infinity s else Finite s q t)"
    unfolding round_double_def Let_def q_def t_def L_def
    using False by (simp only: if_False)
  have q: "0 \<le> q \<and> q \<le> 2 ^ 53"
  proof (cases "t \<le> e")
    case True
    have le: "nat L + nat (e - t) \<le> 53"
      using True t_ge L1 by simp
    have "m * 2 ^ nat (e - t) < 2 ^ nat L * 2 ^ nat (e - t)"
      using up by simp
    also have "\<dots> = 2 ^ (nat L + nat (e - t))"
      by (simp add: power_add)
    also have "\<dots> \<le> 2 ^ 53"
      using le by (intro power_increasing) auto
    finally have "m * 2 ^ nat (e - t) < 2 ^ 53" .
    moreover have "0 \<le> m * 2 ^ nat (e - t)"
      using pos by simp
    ultimately show ?thesis
      using True by (simp add: q_def)
  next
    case False
    have "nat L \<le> 53 + nat (t - e)"
      using False t_ge L1 by simp
    then have "(2::int) ^ nat L \<le> 2 ^ (53 + nat (t - e))"
      by (intro power_increasing) auto
    with up have "m < 2 ^ 53 * 2 ^ nat (t - e)"
      by (simp add: power_add)
    then show ?thesis
      using False pos round_half_even_bounds[of m "2 ^ 53" "nat (t - e)"]
      by (simp add: q_def)
  qed
  show ?thesis
    unfolding eq using q t_lo by auto
qed


lemma powi_pos: "0 < (2::real) powi e"
  by (simp add: zero_less_power_int)

lemma dyadic_eq_int:
  fixes m m' e e' :: int
  assumes "of_int m * (2::real) powi e = of_int m' * 2 powi e'" and "e \<le> e'"
  shows "m = m' * 2 ^ nat (e' - e)"
proof -
  have "of_int m * (2::real) powi e = of_int m' * (2 ^ nat (e' - e) * 2 powi e)"
    using assms(1) powi_shift_up[OF assms(2)] by simp
  then have "of_int m * (2::real) powi e = of_int (m' * 2 ^ nat (e' - e)) * 2 powi e"
    by simp
  then have "(of_int m :: real) = of_int (m' * 2 ^ nat (e' - e))"
    using powi_pos[of e] by (simp only: mult_cancel_right) simp
  then show ?thesis
    by (simp only: of_int_eq_iff)
qed

text \<open>
  When the magnitude \<open>m * 2 ^ e\<close> is a finite float, the exponent chosen by the rounding is
  in range and the bits to be cut off are all zero.
\<close>

lemma representable_no_loss:
  fixes m m' e e' :: int
  assumes pos: "0 < m"
    and m': "0 \<le> m'" "m' < 2 ^ 53" and e': "- 1074 \<le> e'" "e' \<le> 971"
    and eq: "of_int m * (2::real) powi e = of_int m' * 2 powi e'"
  defines "t \<equiv> max (e + bitlen m - 53) (- 1074)"
  shows "t \<le> 971" and "e < t \<Longrightarrow> 2 ^ nat (t - e) dvd m"
proof -
  define L where "L = bitlen m"
  have L1: "1 \<le> L" and up: "m < 2 ^ nat L" and lo: "2 ^ nat (L - 1) \<le> m"
    using bitlen_pos_bounds[OF pos] by (simp_all add: L_def)
  have t: "t = max (e + L - 53) (- 1074)"
    by (simp add: t_def L_def)
  text \<open>If \<open>m\<close> had more than 53 bits above \<open>e'\<close>, then \<open>m'\<close> would not fit.\<close>
  have fits: "e + L - 53 \<le> e'"
  proof (rule ccontr)
    assume "\<not> e + L - 53 \<le> e'"
    then have big: "e' + 54 \<le> e + L" by simp
    show False
    proof (cases "e \<le> e'")
      case True
      have m: "m = m' * 2 ^ nat (e' - e)"
        using eq True by (rule dyadic_eq_int)
      have "m' * 2 ^ nat (e' - e) < 2 ^ 53 * 2 ^ nat (e' - e)"
        using m'(2) by simp
      also have "\<dots> = 2 ^ (53 + nat (e' - e))"
        by (simp add: power_add)
      also have "\<dots> \<le> 2 ^ nat (L - 1)"
        using big True by (intro power_increasing) auto
      finally show False
        using lo m by simp
    next
      case False
      then have "e' \<le> e" by simp
      have m: "m' = m * 2 ^ nat (e - e')"
        using eq[symmetric] \<open>e' \<le> e\<close> by (rule dyadic_eq_int)
      have "(2::int) ^ 53 \<le> 2 ^ (nat (L - 1) + nat (e - e'))"
        using big False by (intro power_increasing) auto
      also have "\<dots> = 2 ^ nat (L - 1) * 2 ^ nat (e - e')"
        by (simp add: power_add)
      also have "\<dots> \<le> m * 2 ^ nat (e - e')"
        using lo by simp
      finally show False
        using m m'(2) by simp
    qed
  qed
  show "t \<le> 971"
    using fits e'(2) by (simp add: t)
  show "2 ^ nat (t - e) dvd m" if "e < t"
  proof -
    have "t \<le> e'"
      using fits e'(1) by (simp add: t)
    with that have "e \<le> e'" by simp
    then have m: "m = m' * 2 ^ nat (e' - e)"
      using eq by (intro dyadic_eq_int)
    have "nat (t - e) \<le> nat (e' - e)"
      using \<open>t \<le> e'\<close> by simp
    then have "(2::int) ^ nat (t - e) dvd 2 ^ nat (e' - e)"
      by (rule le_imp_power_dvd)
    then show ?thesis
      unfolding m by (rule dvd_mult)
  qed
qed


lemma round_double_exact:
  fixes m m' e e' :: int
  assumes m: "0 \<le> m"
    and m': "0 \<le> m'" "m' < 2 ^ 53" and e': "- 1074 \<le> e'" "e' \<le> 971"
    and eq: "of_int m * (2::real) powi e = of_int m' * 2 powi e'"
  shows "real_of (round_double s m e) = Some ((if s then - 1 else 1) * of_int m * 2 powi e)"
proof (cases "m \<le> 0")
  case True
  with m have "m = 0" by simp
  then show ?thesis by (simp add: round_double_def)
next
  case False
  then have pos: "0 < m" by simp
  define L where "L = bitlen m"
  define t where "t = max (e + L - 53) (- 1074)"
  define q where "q = (if t \<le> e then m * 2 ^ nat (e - t) else round_half_even m (nat (t - e)))"
  have L1: "1 \<le> L" and up: "m < 2 ^ nat L"
    using bitlen_pos_bounds[OF pos] by (simp_all add: L_def)
  have t_ge: "e + L - 53 \<le> t"
    by (simp add: t_def)
  have rd: "round_double s m e =
      (if q = 2 ^ 53 then (if 971 < t + 1 then Infinity s else Finite s (2 ^ 52) (t + 1))
       else if 971 < t then Infinity s else Finite s q t)"
    unfolding round_double_def Let_def q_def t_def L_def
    using False by (simp only: if_False)
  have t_hi: "t \<le> 971" and cut: "e < t \<Longrightarrow> 2 ^ nat (t - e) dvd m"
    using representable_no_loss[OF pos m' e' eq] by (simp_all add: t_def L_def)
  have val: "of_int q * (2::real) powi t = of_int m * 2 powi e" and small: "q < 2 ^ 53"
  proof -
    show "of_int q * (2::real) powi t = of_int m * 2 powi e"
    proof (cases "t \<le> e")
      case True
      then show ?thesis
        using powi_shift_up[OF True] by (simp add: q_def)
    next
      case False
      then have "e < t" by simp
      define k where "k = nat (t - e)"
      have dvd: "2 ^ k dvd m"
        using cut[OF \<open>e < t\<close>] by (simp add: k_def)
      then have q: "q = m div 2 ^ k"
        using False by (simp add: q_def k_def round_half_even_exact)
      have "m = q * 2 ^ k"
        using dvd by (simp add: q)
      moreover have "(2::real) powi t = 2 ^ k * 2 powi e"
        using powi_shift_up[of e t] \<open>e < t\<close> by (simp add: k_def)
      ultimately show ?thesis
        by simp
    qed
    show "q < 2 ^ 53"
    proof (cases "t \<le> e")
      case True
      have le: "nat L + nat (e - t) \<le> 53"
        using True t_ge L1 by simp
      have "m * 2 ^ nat (e - t) < 2 ^ nat L * 2 ^ nat (e - t)"
        using up by simp
      also have "\<dots> = 2 ^ (nat L + nat (e - t))"
        by (simp add: power_add)
      also have "\<dots> \<le> 2 ^ 53"
        using le by (intro power_increasing) auto
      finally show ?thesis
        using True by (simp add: q_def)
    next
      case False
      then have "e < t" by simp
      have q: "q = m div 2 ^ nat (t - e)"
        using False cut[OF \<open>e < t\<close>] by (simp add: q_def round_half_even_exact)
      have "nat L \<le> 53 + nat (t - e)"
        using False t_ge L1 by simp
      then have "(2::int) ^ nat L \<le> 2 ^ (53 + nat (t - e))"
        by (intro power_increasing) auto
      with up have "m < 2 ^ 53 * 2 ^ nat (t - e)"
        by (simp add: power_add)
      then show ?thesis
        unfolding q by (intro div_less_bound) simp_all
    qed
  qed
  have "round_double s m e = Finite s q t"
    using small t_hi by (simp add: rd)
  then show ?thesis
    using val by (simp add: mult.assoc)
qed

lemma abs_signed:
  assumes "0 \<le> m"
  shows "\<bar>(if s then - 1 else 1) * of_int m * (2::real) powi e\<bar> = of_int m * 2 powi e"
proof -
  have "0 \<le> of_int m * (2::real) powi e"
    using assms powi_pos[of e] by simp
  then show ?thesis
    by (cases s) (simp_all add: mult.assoc)
qed

lemma round_double_representable:
  assumes "0 \<le> m"
  shows "(real_of (round_double s m e) = Some ((if s then - 1 else 1) * of_int m * 2 powi e))
     = representable ((if s then - 1 else 1) * of_int m * 2 powi e)"
proof
  assume "real_of (round_double s m e) = Some ((if s then - 1 else 1) * of_int m * 2 powi e)"
  then show "representable ((if s then - 1 else 1) * of_int m * 2 powi e)"
    unfolding representable_def using round_double_is_double by blast
next
  assume "representable ((if s then - 1 else 1) * of_int m * 2 powi e)"
  then obtain c where c: "is_double c"
      "real_of c = Some ((if s then - 1 else 1) * of_int m * 2 powi e)"
    unfolding representable_def by blast
  then obtain s' m' e' where c_def: "c = Finite s' m' e'"
    by (cases c) simp_all
  have m': "0 \<le> m'" "m' < 2 ^ 53" and e': "- 1074 \<le> e'" "e' \<le> 971"
    using c(1) by (simp_all add: c_def)
  have "(if s' then - 1 else 1) * of_int m' * (2::real) powi e'
      = (if s then - 1 else 1) * of_int m * 2 powi e"
    using c(2) by (simp add: c_def)
  then have "\<bar>(if s' then - 1 else 1) * of_int m' * (2::real) powi e'\<bar>
      = \<bar>(if s then - 1 else 1) * of_int m * 2 powi e\<bar>"
    by simp
  then have "of_int m * (2::real) powi e = of_int m' * 2 powi e'"
    using abs_signed[OF assms, of s e] abs_signed[OF m'(1), of s' e'] by simp
  then show "real_of (round_double s m e) = Some ((if s then - 1 else 1) * of_int m * 2 powi e)"
    by (rule round_double_exact[OF assms m' e'])
qed

lemma fadd_exact_iff:
  assumes "is_double a" "is_double b" "real_of a = Some x" "real_of b = Some y"
  shows "(real_of (fadd a b) = Some (x + y)) = representable (x + y)"
proof -
  obtain s1 m1 e1 where a: "a = Finite s1 m1 e1"
    using assms(3) by (cases a) simp_all
  obtain s2 m2 e2 where b: "b = Finite s2 m2 e2"
    using assms(4) by (cases b) simp_all
  define e where "e = min e1 e2"
  define m where "m = (if s1 then - m1 else m1) * 2 ^ nat (e1 - e)
      + (if s2 then - m2 else m2) * 2 ^ nat (e2 - e)"
  have x: "x = of_int ((if s1 then - m1 else m1) * 2 ^ nat (e1 - e)) * 2 powi e"
    using assms(3) powi_shift_up[of e e1] by (auto simp: a e_def)
  have y: "y = of_int ((if s2 then - m2 else m2) * 2 ^ nat (e2 - e)) * 2 powi e"
    using assms(4) powi_shift_up[of e e2] by (auto simp: b e_def)
  have sum: "x + y = of_int m * 2 powi e"
    unfolding x y m_def by (simp only: of_int_add distrib_right)
  show ?thesis
  proof (cases "m = 0")
    case True
    have "is_double (Finite (s1 \<and> s2) 0 (- 1074))" by simp
    moreover have "real_of (Finite (s1 \<and> s2) 0 (- 1074)) = Some (x + y)"
      using True sum by simp
    ultimately have "representable (x + y)"
      unfolding representable_def by blast
    moreover have "fadd a b = Finite (s1 \<and> s2) 0 (- 1074)"
      using True by (simp add: a b Let_def e_def[symmetric] m_def[symmetric])
    ultimately show ?thesis
      using True sum by simp
  next
    case False
    have r: "fadd a b = round_double (m < 0) \<bar>m\<bar> e"
      using False by (simp add: a b Let_def e_def[symmetric] m_def[symmetric])
    have v: "x + y = (if m < 0 then - 1 else 1) * of_int \<bar>m\<bar> * 2 powi e"
      unfolding sum by simp
    show ?thesis
      unfolding r v by (rule round_double_representable) simp
  qed
qed

lemma fmul_exact_iff:
  assumes "is_double a" "is_double b" "real_of a = Some x" "real_of b = Some y"
  shows "(real_of (fmul a b) = Some (x * y)) = representable (x * y)"
proof -
  obtain s1 m1 e1 where a: "a = Finite s1 m1 e1"
    using assms(3) by (cases a) simp_all
  obtain s2 m2 e2 where b: "b = Finite s2 m2 e2"
    using assms(4) by (cases b) simp_all
  have nonneg: "0 \<le> m1 * m2"
    using assms(1,2) by (simp add: a b)
  have "(2::real) powi (e1 + e2) = 2 powi e1 * 2 powi e2"
    by (rule power_int_add) simp
  then have v: "x * y = (if s1 \<noteq> s2 then - 1 else 1) * of_int (m1 * m2) * 2 powi (e1 + e2)"
    using assms(3,4) by (auto simp: a b)
  have r: "fmul a b = round_double (s1 \<noteq> s2) (m1 * m2) (e1 + e2)"
    by (simp add: a b)
  show ?thesis
    unfolding r v using nonneg by (rule round_double_representable)
qed

text \<open>\<open>round_half_even\<close> picks a multiple of \<open>2 ^ k\<close> that is nearest to \<open>m\<close>.\<close>

lemma round_half_even_nearest:
  "\<bar>round_half_even m k * 2 ^ k - m\<bar> \<le> \<bar>j * 2 ^ k - m\<bar>"
proof -
  define P :: int where "P = 2 ^ k"
  define q where "q = m div P"
  define r where "r = m mod P"
  have P: "0 < P" by (simp add: P_def)
  have m: "m = q * P + r" by (simp add: q_def r_def)
  have r: "0 \<le> r" "r < P" using P by (simp_all add: r_def)
  have far: "r \<le> \<bar>j * P - m\<bar> \<and> P - r \<le> \<bar>j * P - m\<bar>
      \<or> (j = q \<or> j = q + 1)"
  proof (cases "j \<le> q - 1")
    case True
    then have "j * P \<le> (q - 1) * P" using P by (simp add: mult_right_mono)
    then have "P + r \<le> m - j * P" by (simp add: m algebra_simps)
    then show ?thesis using r by simp
  next
    case False
    show ?thesis
    proof (cases "q + 2 \<le> j")
      case True
      then have "(q + 2) * P \<le> j * P" using P by (simp add: mult_right_mono)
      then have "2 * P - r \<le> j * P - m" by (simp add: m algebra_simps)
      then show ?thesis using r by simp
    next
      case False
      with \<open>\<not> j \<le> q - 1\<close> show ?thesis by arith
    qed
  qed
  have near: "r \<le> \<bar>j * P - m\<bar> \<or> P - r \<le> \<bar>j * P - m\<bar>"
    using far r by (auto simp: m algebra_simps)
  have both: "j \<noteq> q \<Longrightarrow> P - r \<le> \<bar>j * P - m\<bar>" "j \<noteq> q + 1 \<Longrightarrow> r \<le> \<bar>j * P - m\<bar>"
    using far r by (auto simp: m algebra_simps)
  show ?thesis
  proof (cases "P < 2 * r \<or> (2 * r = P \<and> q mod 2 = 1)")
    case True
    then have rhe: "round_half_even m k = q + 1"
      by (simp add: round_half_even_def Let_def P_def q_def r_def)
    have err: "\<bar>(q + 1) * P - m\<bar> = P - r"
      using r by (simp add: m algebra_simps)
    have "P - r \<le> r" using True by auto
    then have "P - r \<le> \<bar>j * P - m\<bar>"
      using both near by (cases "j = q") auto
    then show ?thesis
      unfolding rhe P_def[symmetric] err .
  next
    case False
    then have rhe: "round_half_even m k = q"
      by (simp add: round_half_even_def Let_def P_def q_def r_def)
    have err: "\<bar>q * P - m\<bar> = r"
      using r by (simp add: m)
    have "r \<le> P - r" using False by auto
    then have "r \<le> \<bar>j * P - m\<bar>"
      using both near by (cases "j = q + 1") auto
    then show ?thesis
      unfolding rhe P_def[symmetric] err .
  qed
qed


lemma round_double_value:
  assumes "0 < m" and "round_double s m e = Finite s' q' t'"
  defines "t \<equiv> max (e + bitlen m - 53) (- 1074)"
  defines "q \<equiv> (if t \<le> e then m * 2 ^ nat (e - t) else round_half_even m (nat (t - e)))"
  shows "s' = s" and "of_int q' * (2::real) powi t' = of_int q * 2 powi t"
proof -
  have rd: "round_double s m e =
      (if q = 2 ^ 53 then (if 971 < t + 1 then Infinity s else Finite s (2 ^ 52) (t + 1))
       else if 971 < t then Infinity s else Finite s q t)"
    unfolding round_double_def Let_def q_def t_def
    using assms(1) by (simp only: if_False not_le[symmetric])
  have carry: "(2::real) powi (t + 1) = 2 powi t * 2"
    using power_int_add[of "2::real" t 1] by simp
  show "s' = s"
    using assms(2) unfolding rd by (auto split: if_splits)
  show "of_int q' * (2::real) powi t' = of_int q * 2 powi t"
    using assms(2) carry unfolding rd by (auto split: if_splits)
qed


lemma round_double_nearest_magnitude:
  fixes J ec :: int
  assumes pos: "0 < m" and res: "round_double s m e = Finite s' q' t'"
    and J: "\<bar>J\<bar> < 2 ^ 53" and ec: "- 1074 \<le> ec"
  shows "\<bar>of_int q' * 2 powi t' - of_int m * 2 powi e\<bar>
      \<le> \<bar>of_int J * 2 powi ec - of_int m * (2::real) powi e\<bar>"
proof -
  define L where "L = bitlen m"
  define t where "t = max (e + L - 53) (- 1074)"
  define q where "q = (if t \<le> e then m * 2 ^ nat (e - t) else round_half_even m (nat (t - e)))"
  define p :: real where "p = 2 powi e"
  have p: "0 < p" by (simp add: p_def powi_pos)
  have val: "of_int q' * (2::real) powi t' = of_int q * 2 powi t"
    using round_double_value(2)[OF pos res] by (simp add: q_def t_def L_def)
  show ?thesis
  proof (cases "t \<le> e")
    case True
    then have "of_int q * (2::real) powi t = of_int m * 2 powi e"
      using powi_shift_up[OF True] by (simp add: q_def)
    then show ?thesis by (simp add: val)
  next
    case False
    then have lt: "e < t" by simp
    define k where "k = nat (t - e)"
    have q: "q = round_half_even m k"
      using False by (simp add: q_def k_def)
    have tk: "(2::real) powi t = 2 ^ k * p"
      using powi_shift_up[of e t] lt by (simp add: k_def p_def)
    have lhs: "\<bar>of_int q' * 2 powi t' - of_int m * 2 powi e\<bar> = of_int \<bar>q * 2 ^ k - m\<bar> * p"
    proof -
      have "of_int q' * 2 powi t' - of_int m * 2 powi e = of_int (q * 2 ^ k - m) * p"
        by (simp add: val tk p_def algebra_simps)
      then show ?thesis
        using p by (simp add: abs_mult)
    qed
    show ?thesis
    proof (cases "t \<le> ec")
      case True
      define n where "n = nat (ec - t)"
      have "(2::real) powi ec = 2 ^ n * 2 powi t"
        using powi_shift_up[OF True] by (simp add: n_def)
      then have "of_int J * 2 powi ec - of_int m * 2 powi e = of_int (J * 2 ^ n * 2 ^ k - m) * p"
        by (simp add: tk p_def algebra_simps)
      then have rhs: "\<bar>of_int J * 2 powi ec - of_int m * 2 powi e\<bar>
          = of_int \<bar>J * 2 ^ n * 2 ^ k - m\<bar> * p"
        using p by (simp add: abs_mult)
      have "\<bar>q * 2 ^ k - m\<bar> \<le> \<bar>J * 2 ^ n * 2 ^ k - m\<bar>"
        unfolding q by (rule round_half_even_nearest)
      then have "(of_int \<bar>q * 2 ^ k - m\<bar> :: real) \<le> of_int \<bar>J * 2 ^ n * 2 ^ k - m\<bar>"
        by (simp only: of_int_le_iff)
      then show ?thesis
        unfolding lhs rhs using p by (simp only: mult_le_cancel_right_pos)
    next
      case False
      then have "ec < t" by simp
      with ec have t: "t = e + L - 53"
        by (simp add: t_def)
      have k: "int k = L - 53" and k1: "1 \<le> k"
        using lt t by (simp_all add: k_def)
      have lo: "2 ^ nat (L - 1) \<le> m"
        using bitlen_pos_bounds(3)[OF pos] by (simp add: L_def)
      have "nat (L - 1) = 52 + k"
        using k by simp
      then have B: "2 ^ 52 * 2 ^ k \<le> m"
        using lo by (simp add: power_add)
      text \<open>Every float with a smaller exponent lies below \<open>2 ^ 52 * 2 ^ t\<close>.\<close>
      have "(2::real) powi ec \<le> 2 powi (t - 1)"
        using \<open>ec < t\<close> by (intro power_int_increasing) simp_all
      moreover have "(2::real) powi t = 2 powi (t - 1) * 2"
        using power_int_add[of "2::real" "t - 1" 1] by simp
      ultimately have "2 * (2::real) powi ec \<le> 2 ^ k * p"
        by (simp add: tk)
      moreover have "\<bar>of_int J :: real\<bar> < 2 ^ 53"
        using J by (metis of_int_abs of_int_less_numeral_power_cancel_iff)
      ultimately have small: "\<bar>of_int J * (2::real) powi ec\<bar> < 2 ^ 52 * (2 ^ k * p)"
      proof -
        assume a: "2 * (2::real) powi ec \<le> 2 ^ k * p" and b: "\<bar>of_int J :: real\<bar> < 2 ^ 53"
        have "\<bar>of_int J * (2::real) powi ec\<bar> = \<bar>of_int J\<bar> * 2 powi ec"
          using powi_pos[of ec] by (simp add: abs_mult)
        also have "\<dots> < 2 ^ 53 * 2 powi ec"
          using b powi_pos[of ec] by (simp only: mult_less_cancel_right_pos)
        also have "\<dots> = 2 ^ 52 * (2 * 2 powi ec)"
          by simp
        also have "\<dots> \<le> 2 ^ 52 * (2 ^ k * p)"
          using a by (intro mult_left_mono) simp_all
        finally show ?thesis .
      qed
      have near: "\<bar>q * 2 ^ k - m\<bar> \<le> \<bar>2 ^ 52 * 2 ^ k - m\<bar>"
        unfolding q by (rule round_half_even_nearest)
      have "(of_int \<bar>q * 2 ^ k - m\<bar> :: real) \<le> of_int \<bar>2 ^ 52 * 2 ^ k - m\<bar>"
        using near by (simp only: of_int_le_iff)
      also have "\<dots> = of_int m - 2 ^ 52 * 2 ^ k"
        using B by simp
      finally have "of_int \<bar>q * 2 ^ k - m\<bar> * p \<le> (of_int m - 2 ^ 52 * 2 ^ k) * p"
        using p by (simp only: mult_le_cancel_right_pos)
      also have "\<dots> = of_int m * p - 2 ^ 52 * (2 ^ k * p)"
        by (simp add: algebra_simps)
      also have "\<dots> \<le> \<bar>of_int J * 2 powi ec - of_int m * p\<bar>"
        using small by linarith
      finally show ?thesis
        unfolding lhs by (simp add: p_def)
    qed
  qed
qed


text \<open>A finite result of rounding is a float nearest to the exact value.\<close>

lemma round_double_nearest:
  assumes pos: "0 < m" and res: "real_of (round_double s m e) = Some y"
    and c: "is_double c" "real_of c = Some z"
  shows "\<bar>y - (if s then - 1 else 1) * of_int m * 2 powi e\<bar>
      \<le> \<bar>z - (if s then - 1 else 1) * of_int m * 2 powi e\<bar>"
proof -
  obtain s' q' t' where r: "round_double s m e = Finite s' q' t'"
    using res by (cases "round_double s m e") simp_all
  have s': "s' = s"
    using round_double_value(1)[OF pos r] .
  obtain sc mc ec where c_def: "c = Finite sc mc ec"
    using c(2) by (cases c) simp_all
  define J where "J = (if s = sc then mc else - mc)"
  have J: "\<bar>J\<bar> < 2 ^ 53" and ec: "- 1074 \<le> ec"
    using c(1) by (simp_all add: c_def J_def)
  define X :: real where "X = of_int m * 2 powi e"
  have y: "y = (if s then - 1 else 1) * (of_int q' * 2 powi t')"
    using res by (simp add: r s' mult.assoc)
  have z: "z = (if s then - 1 else 1) * (of_int J * 2 powi ec)"
    using c(2) by (auto simp: c_def J_def)
  have "\<bar>y - (if s then - 1 else 1) * X\<bar> = \<bar>of_int q' * 2 powi t' - X\<bar>"
    unfolding y by (cases s) (simp_all add: abs_minus_commute)
  moreover have "\<bar>z - (if s then - 1 else 1) * X\<bar> = \<bar>of_int J * 2 powi ec - X\<bar>"
    unfolding z by (cases s) (simp_all add: abs_minus_commute)
  moreover have "\<bar>of_int q' * 2 powi t' - X\<bar> \<le> \<bar>of_int J * 2 powi ec - X\<bar>"
    unfolding X_def using pos r J ec by (rule round_double_nearest_magnitude)
  ultimately show ?thesis
    by (simp add: X_def mult.assoc)
qed

lemma fadd_nearest:
  assumes "is_double a" "is_double b" "real_of a = Some x" "real_of b = Some y"
    and res: "real_of (fadd a b) = Some v" and c: "is_double c" "real_of c = Some z"
  shows "\<bar>v - (x + y)\<bar> \<le> \<bar>z - (x + y)\<bar>"
proof -
  obtain s1 m1 e1 where a: "a = Finite s1 m1 e1"
    using assms(3) by (cases a) simp_all
  obtain s2 m2 e2 where b: "b = Finite s2 m2 e2"
    using assms(4) by (cases b) simp_all
  define e where "e = min e1 e2"
  define m where "m = (if s1 then - m1 else m1) * 2 ^ nat (e1 - e)
      + (if s2 then - m2 else m2) * 2 ^ nat (e2 - e)"
  have x: "x = of_int ((if s1 then - m1 else m1) * 2 ^ nat (e1 - e)) * 2 powi e"
    using assms(3) powi_shift_up[of e e1] by (auto simp: a e_def)
  have y: "y = of_int ((if s2 then - m2 else m2) * 2 ^ nat (e2 - e)) * 2 powi e"
    using assms(4) powi_shift_up[of e e2] by (auto simp: b e_def)
  have sum: "x + y = of_int m * 2 powi e"
    unfolding x y m_def by (simp only: of_int_add distrib_right)
  show ?thesis
  proof (cases "m = 0")
    case True
    have "fadd a b = Finite (s1 \<and> s2) 0 (- 1074)"
      using True by (simp add: a b Let_def e_def[symmetric] m_def[symmetric])
    then have "v = x + y"
      using res True sum by simp
    then show ?thesis by simp
  next
    case False
    have r: "fadd a b = round_double (m < 0) \<bar>m\<bar> e"
      using False by (simp add: a b Let_def e_def[symmetric] m_def[symmetric])
    have v: "x + y = (if m < 0 then - 1 else 1) * of_int \<bar>m\<bar> * 2 powi e"
      unfolding sum by simp
    have "0 < \<bar>m\<bar>" using False by simp
    then show ?thesis
      unfolding v using res c unfolding r by (rule round_double_nearest)
  qed
qed

lemma fmul_nearest:
  assumes "is_double a" "is_double b" "real_of a = Some x" "real_of b = Some y"
    and res: "real_of (fmul a b) = Some v" and c: "is_double c" "real_of c = Some z"
  shows "\<bar>v - x * y\<bar> \<le> \<bar>z - x * y\<bar>"
proof -
  obtain s1 m1 e1 where a: "a = Finite s1 m1 e1"
    using assms(3) by (cases a) simp_all
  obtain s2 m2 e2 where b: "b = Finite s2 m2 e2"
    using assms(4) by (cases b) simp_all
  have nonneg: "0 \<le> m1 * m2"
    using assms(1,2) by (simp add: a b)
  have "(2::real) powi (e1 + e2) = 2 powi e1 * 2 powi e2"
    by (rule power_int_add) simp
  then have xy: "x * y = (if s1 \<noteq> s2 then - 1 else 1) * of_int (m1 * m2) * 2 powi (e1 + e2)"
    using assms(3,4) by (auto simp: a b)
  have r: "fmul a b = round_double (s1 \<noteq> s2) (m1 * m2) (e1 + e2)"
    by (simp add: a b)
  show ?thesis
  proof (cases "m1 * m2 = 0")
    case True
    then have "fmul a b = Finite (s1 \<noteq> s2) 0 (- 1074)"
      by (simp only: r round_double_def) simp
    then have "v = 0"
      using res by simp
    moreover have "x * y = 0"
      unfolding xy using True by simp
    ultimately have "v = x * y"
      by (simp only:)
    then show ?thesis by simp
  next
    case False
    with nonneg have "0 < m1 * m2" by (simp only: order_less_le) simp
    then show ?thesis
      unfolding xy using res c unfolding r by (rule round_double_nearest)
  qed
qed

text \<open>
  The model's arithmetic on some values, as Python computes them: \<^verbatim>\<open>5.0 + 12.5\<close>,
  \<^verbatim>\<open>5.0 * 12.5\<close>, \<^verbatim>\<open>1e16 + 1.0\<close>, \<^verbatim>\<open>1e16 + 3.0\<close>, \<^verbatim>\<open>134217729.0 * 134217729.0\<close>,
  \<^verbatim>\<open>0.1 + 0.2\<close>, \<^verbatim>\<open>2.0**600 * 2.0**600\<close>, \<^verbatim>\<open>2.0**-600 * 2.0**-600\<close>, the largest float
  plus \<^verbatim>\<open>2.0**970\<close> and plus \<^verbatim>\<open>2.0**969\<close>, \<^verbatim>\<open>5e-324 * 1.5\<close>, \<^verbatim>\<open>-0.0 + 0.0\<close>,
  \<^verbatim>\<open>-0.0 * 224.0\<close>, \<^verbatim>\<open>inf + -inf\<close> and \<^verbatim>\<open>-inf * 0.0\<close>.
\<close>

lemma float_examples:
  "float_5 + float_12_5 = Finite False 4925812092436480 (- 48)"
  "float_5 * float_12_5 = Finite False 8796093022208000 (- 47)"
  "Finite False 5000000000000000 1 + Finite False (2 ^ 52) (- 52) = Finite False 5000000000000000 1"
  "Finite False 5000000000000000 1 + Finite False 3 0 = Finite False 5000000000000002 1"
  "Finite False 4503599660924928 (- 25) * Finite False 4503599660924928 (- 25)
     = Finite False 4503599694479360 2"
  "Finite False 7205759403792794 (- 56) + Finite False 7205759403792794 (- 55)
     = Finite False 5404319552844596 (- 54)"
  "Finite False (2 ^ 52) 548 * Finite False (2 ^ 52) 548 = Infinity False"
  "Finite False (2 ^ 52) (- 652) * Finite False (2 ^ 52) (- 652) = Finite False 0 (- 1074)"
  "Finite False (2 ^ 53 - 1) 971 + Finite False 1 970 = Infinity False"
  "Finite False (2 ^ 53 - 1) 971 + Finite False 1 969 = Finite False (2 ^ 53 - 1) 971"
  "Finite False 1 (- 1074) * Finite False 3 (- 1) = Finite False 2 (- 1074)"
  "Finite True 0 0 + Finite False 0 0 = Finite False 0 (- 1074)"
  "Finite True 0 0 * Finite False 7 5 = Finite True 0 (- 1074)"
  "Infinity False + Infinity True = NaN"
  "Infinity True * Finite False 0 0 = NaN"
  by code_simp+

text \<open>
  C6, as stated, fails: \<^verbatim>\<open>add(1e16, 1.0)\<close> returns \<^verbatim>\<open>1e16\<close>, which is not the real
  number \<open>10 ^ 16 + 1\<close>.
\<close>

theorem add_counterexample:
  "is_double float_1e16 \<and> is_double float_1
   \<and> real_of float_1e16 = Some (10 ^ 16) \<and> real_of float_1 = Some 1
   \<and> real_of (snd (add demo_fmt float_1e16 float_1 fresh_world)) = Some (10 ^ 16)
   \<and> real_of (snd (add demo_fmt float_1e16 float_1 fresh_world)) \<noteq> Some (10 ^ 16 + 1)"
proof -
  have "snd (add demo_fmt float_1e16 float_1 fresh_world) = float_1e16"
    by code_simp
  then show ?thesis
    by (simp add: float_1e16_def float_1_def)
qed

text \<open>
  C6, amended. For all finite floats \<open>a\<close> and \<open>b\<close>, denoting the real numbers \<open>x\<close> and
  \<open>y\<close>, \<open>add\<close> returns the floating-point sum of \<open>a\<close> and \<open>b\<close>. That is the real number
  \<open>x + y\<close> exactly when \<open>x + y\<close> is representable as a float, and whenever it is finite
  it is a float nearest to \<open>x + y\<close>: no float \<open>c\<close> is closer.
\<close>

theorem add_returns_sum:
  assumes "is_double a" "is_double b" "real_of a = Some x" "real_of b = Some y"
  shows "snd (add fmt a b w) = a + b
     \<and> (real_of (snd (add fmt a b w)) = Some (x + y)) = representable (x + y)
     \<and> (real_of (snd (add fmt a b w)) = Some v \<and> is_double c \<and> real_of c = Some z
          \<longrightarrow> \<bar>v - (x + y)\<bar> \<le> \<bar>z - (x + y)\<bar>)"
  using fadd_exact_iff[OF assms] fadd_nearest[OF assms, of v c z]
  by (simp add: add_def Let_def plus_pyfloat_def)

theorem add_returns_sum_witness:
  "is_double float_5 \<and> is_double float_12_5
   \<and> real_of float_5 = Some 5 \<and> real_of float_12_5 = Some (25 / 2)
   \<and> snd (add demo_fmt float_5 float_12_5 fresh_world) = float_5 + float_12_5
   \<and> real_of (snd (add demo_fmt float_5 float_12_5 fresh_world)) = Some (5 + 25 / 2)
   \<and> representable (5 + 25 / 2)
   \<and> \<bar>(5 + 25 / 2) - (5 + 25 / 2)\<bar> \<le> \<bar>(5::real) - (5 + 25 / 2)\<bar>"
proof -
  have a: "is_double float_5" and b: "is_double float_12_5"
    by (simp_all add: float_5_def float_12_5_def)
  have x: "real_of float_5 = Some 5" and y: "real_of float_12_5 = Some (25 / 2)"
    by (simp_all add: float_5_def float_12_5_def)
  have "snd (add demo_fmt float_5 float_12_5 fresh_world) = Finite False 4925812092436480 (- 48)"
    by code_simp
  then have v: "real_of (snd (add demo_fmt float_5 float_12_5 fresh_world)) = Some (5 + 25 / 2)"
    by simp
  show ?thesis
    using add_returns_sum[OF a b x y, of demo_fmt fresh_world "5 + 25 / 2" float_5 5] a b x y v
    by simp
qed

text \<open>
  C7, as stated, fails: \<^verbatim>\<open>multiply(134217729.0, 134217729.0)\<close> returns
  \<^verbatim>\<open>18014398777917440.0\<close>, one less than the real product.
\<close>

theorem multiply_counterexample:
  "is_double float_134217729
   \<and> real_of float_134217729 = Some 134217729
   \<and> real_of (snd (multiply demo_fmt float_134217729 float_134217729 fresh_world))
       = Some 18014398777917440
   \<and> real_of (snd (multiply demo_fmt float_134217729 float_134217729 fresh_world))
       \<noteq> Some (134217729 * 134217729)"
proof -
  have "snd (multiply demo_fmt float_134217729 float_134217729 fresh_world)
      = Finite False 4503599694479360 2"
    by code_simp
  then show ?thesis
    by (simp add: float_134217729_def)
qed

text \<open>
  C7, amended. For all finite floats \<open>a\<close> and \<open>b\<close>, denoting the real numbers \<open>x\<close> and
  \<open>y\<close>, \<open>multiply\<close> returns the floating-point product of \<open>a\<close> and \<open>b\<close>. That is the
  real number \<open>x * y\<close> exactly when \<open>x * y\<close> is representable as a float, and whenever it
  is finite it is a float nearest to \<open>x * y\<close>: no float \<open>c\<close> is closer.
\<close>

theorem multiply_returns_product:
  assumes "is_double a" "is_double b" "real_of a = Some x" "real_of b = Some y"
  shows "snd (multiply fmt a b w) = a * b
     \<and> (real_of (snd (multiply fmt a b w)) = Some (x * y)) = representable (x * y)
     \<and> (real_of (snd (multiply fmt a b w)) = Some v \<and> is_double c \<and> real_of c = Some z
          \<longrightarrow> \<bar>v - x * y\<bar> \<le> \<bar>z - x * y\<bar>)"
  using fmul_exact_iff[OF assms] fmul_nearest[OF assms, of v c z]
  by (simp add: multiply_def Let_def times_pyfloat_def)

theorem multiply_returns_product_witness:
  "is_double float_5 \<and> is_double float_12_5
   \<and> real_of float_5 = Some 5 \<and> real_of float_12_5 = Some (25 / 2)
   \<and> snd (multiply demo_fmt float_5 float_12_5 fresh_world) = float_5 * float_12_5
   \<and> real_of (snd (multiply demo_fmt float_5 float_12_5 fresh_world)) = Some (5 * (25 / 2))
   \<and> representable (5 * (25 / 2))
   \<and> \<bar>5 * (25 / 2) - 5 * (25 / 2)\<bar> \<le> \<bar>(5::real) - 5 * (25 / 2)\<bar>"
proof -
  have a: "is_double float_5" and b: "is_double float_12_5"
    by (simp_all add: float_5_def float_12_5_def)
  have x: "real_of float_5 = Some 5" and y: "real_of float_12_5 = Some (25 / 2)"
    by (simp_all add: float_5_def float_12_5_def)
  have "snd (multiply demo_fmt float_5 float_12_5 fresh_world)
      = Finite False 8796093022208000 (- 47)"
    by code_simp
  then have v: "real_of (snd (multiply demo_fmt float_5 float_12_5 fresh_world))
      = Some (5 * (25 / 2))"
    by simp
  show ?thesis
    using multiply_returns_product[OF a b x y, of demo_fmt fresh_world "5 * (25 / 2)" float_5 5]
      a b x y v
    by simp
qed


section \<open>The registry\<close>

text \<open>
  C8. The names of the three tool descriptors in the list \<open>tools\<close> are pairwise
  different.
\<close>

theorem tools_names_distinct: "distinct (map tool_name tools)"
  by (simp add: tools_def multiply_tool_def add_tool_def wikipedia_tool_def
      FunctionTool_from_defaults_def)


text \<open>
  C5. For every query the value returned is the one that trying the three keys in the
  fixed order \<^verbatim>\<open>"alan turing"\<close>, \<^verbatim>\<open>"llama"\<close>, \<^verbatim>\<open>"react agent"\<close> against the
  lower-cased query gives: the entry of the first key that occurs in it. When several
  keys occur, the earliest in that order decides.
\<close>

theorem search_wikipedia_first_match: "snd (search_wikipedia q w) = first_match q"
  by (simp add: snd_search_wikipedia first_match_def fake_wikipedia_def not_found_def)

text \<open>A query in which all three keys occur, the second one first: the first entry is returned.\<close>

lemma search_wikipedia_overlap_example:
  "snd (search_wikipedia ''Does a LLAMA know Alan Turing or a ReAct agent?'' w) =
     ''Alan Turing was a British mathematician, computer scientist, logician, cryptanalyst, philosopher, and theoretical biologist. He was highly influential in the development of theoretical computer science.''"
  by code_simp

text \<open>
  C1, as stated, fails: the message does not quote the query as the caller supplied it.
  For \<^verbatim>\<open>"Grace Hopper"\<close> none of the three keys matches, and the message returned does
  not contain \<^verbatim>\<open>"Grace Hopper"\<close>.
\<close>

theorem search_wikipedia_not_found_counterexample:
  "\<not> contains ''alan turing'' (lower ''Grace Hopper'')
   \<and> \<not> contains ''llama'' (lower ''Grace Hopper'')
   \<and> \<not> contains ''react agent'' (lower ''Grace Hopper'')
   \<and> \<not> contains ''Grace Hopper'' (snd (search_wikipedia ''Grace Hopper'' fresh_world))"
  by code_simp

text \<open>
  C1, amended. For every query whose lower-cased form contains none of the three keys,
  \<open>search_wikipedia\<close> returns the message \<^verbatim>\<open>Couldn't find information about '...' on
  Fake Wikipedia.\<close> with the lower-cased query between the quotes; the message contains
  the lower-cased form of the queried text.
\<close>

theorem search_wikipedia_not_found:
  assumes "\<not> contains ''alan turing'' (lower q)"
    and "\<not> contains ''llama'' (lower q)"
    and "\<not> contains ''react agent'' (lower q)"
  shows "snd (search_wikipedia q w) = not_found (lower q)
     \<and> contains (lower q) (snd (search_wikipedia q w))"
proof -
  have "snd (search_wikipedia q w) = not_found (lower q)"
    using assms by (simp add: snd_search_wikipedia not_found_def)
  moreover have "contains (lower q)
      ((''Couldn't find information about '' @ [CHR 0x27]) @ lower q
        @ ([CHR 0x27] @ '' on Fake Wikipedia.''))"
    by (rule contains_middle)
  then have "contains (lower q) (not_found (lower q))"
    by (simp only: not_found_def append_assoc)
  ultimately show ?thesis
    by simp
qed

theorem search_wikipedia_not_found_witness:
  "\<not> contains ''alan turing'' (lower ''Grace Hopper'')
   \<and> \<not> contains ''llama'' (lower ''Grace Hopper'')
   \<and> \<not> contains ''react agent'' (lower ''Grace Hopper'')
   \<and> snd (search_wikipedia ''Grace Hopper'' fresh_world)
       = ''Couldn't find information about 'grace hopper' on Fake Wikipedia.''
   \<and> contains ''grace hopper'' (snd (search_wikipedia ''Grace Hopper'' fresh_world))"
proof -
  have l: "lower ''Grace Hopper'' = ''grace hopper''"
    by code_simp
  have h1: "\<not> contains ''alan turing'' (lower ''Grace Hopper'')"
    by code_simp
  have h2: "\<not> contains ''llama'' (lower ''Grace Hopper'')"
    by code_simp
  have h3: "\<not> contains ''react agent'' (lower ''Grace Hopper'')"
    by code_simp
  show ?thesis
    using search_wikipedia_not_found[OF h1 h2 h3, of fresh_world] h1 h2 h3
    by (simp add: l not_found_def)
qed


section \<open>Effects of the tools\<close>

text \<open>
  C9. Each of the three functions changes the state in one way only, by one more entry
  on standard output (its diagnostic line, fixed by the arguments), and the value it
  returns is the same in every state: two runs on the same arguments return the same
  value.
\<close>

theorem tools_deterministic_and_print_only:
  "fst (multiply fmt a b w)
     = w\<lparr>stdout := stdout w
           @ [''--- Calling Multiply Tool with: a='' @ fmt a @ '', b='' @ fmt b @ '' ---'']\<rparr>
   \<and> snd (multiply fmt a b w) = snd (multiply fmt a b w')
   \<and> fst (add fmt c d w)
     = w\<lparr>stdout := stdout w
           @ [''--- Calling Add Tool with: a='' @ fmt c @ '', b='' @ fmt d @ '' ---'']\<rparr>
   \<and> snd (add fmt c d w) = snd (add fmt c d w')
   \<and> fst (search_wikipedia q w)
     = w\<lparr>stdout := stdout w @ [''--- Calling Wikipedia Tool with query: '' @ q @ '' ---'']\<rparr>
   \<and> snd (search_wikipedia q w) = snd (search_wikipedia q w')"
  by (simp add: multiply_def add_def search_wikipedia_def print_def Let_def)


section \<open>The credential check\<close>

text \<open>
  C2. If \<^verbatim>\<open>GOOGLE_API_KEY\<close> is absent from the environment that the script reads (the
  process environment after \<^verbatim>\<open>load_dotenv\<close>), the run ends with the \<^verbatim>\<open>ValueError\<close> of
  the credential check, in the state that \<^verbatim>\<open>load_dotenv\<close> left: whatever the framework
  and the delegate would do, no call into the framework has been made (no tool, model
  or agent constructed, no chat sent) and nothing has been printed, so no tool has run.
\<close>

theorem missing_credential_is_fatal:
  assumes "environ (fst (load_dotenv w)) ''GOOGLE_API_KEY'' = None"
  shows "main fmt lib w = (w\<lparr>environ := dotenv w ++ environ w\<rparr>, Inl credential_error)
     \<and> exn_class credential_error = ValueError
     \<and> stdout (fst (main fmt lib w)) = stdout w
     \<and> events (fst (main fmt lib w)) = events w"
proof -
  have absent: "(dotenv w ++ environ w) ''GOOGLE_API_KEY'' = None"
    using assms by (simp add: load_dotenv_def)
  have run: "main fmt lib w = (w\<lparr>environ := dotenv w ++ environ w\<rparr>, Inl credential_error)"
    by (simp add: main_def bindE_def load_dotenv_def getenv_def raise_def absent)
  show ?thesis
    by (simp add: run) (simp add: credential_error_def)
qed

theorem missing_credential_is_fatal_witness:
  "environ (fst (load_dotenv fresh_world)) ''GOOGLE_API_KEY'' = None
   \<and> snd (main demo_fmt demo_lib fresh_world) = Inl credential_error
   \<and> stdout (fst (main demo_fmt demo_lib fresh_world)) = []
   \<and> events (fst (main demo_fmt demo_lib fresh_world)) = []"
proof -
  have h: "environ (fst (load_dotenv fresh_world)) ''GOOGLE_API_KEY'' = None"
    by (simp add: load_dotenv_def fresh_world_def)
  show ?thesis
    using h missing_credential_is_fatal[OF h, of demo_fmt demo_lib]
    by (simp add: fresh_world_def)
qed

text \<open>
  For comparison, the same framework with the key set in the \<^verbatim>\<open>.env\<close> file: the run
  ends normally, after these calls and this output.
\<close>

lemma demo_run_ends_normally: "snd (main demo_fmt demo_lib keyed_world) = Inr ()"
  by code_simp

lemma demo_run_events:
  "events (fst (main demo_fmt demo_lib keyed_world)) =
     [Construct_tool multiply_tool, Construct_tool add_tool, Construct_tool wikipedia_tool,
      Construct_llm ''gemini-2.0-flash-lite'' ''secret'', Construct_agent tools,
      Send_chat question]"
  by code_simp

lemma demo_run_stdout:
  "stdout (fst (main demo_fmt demo_lib keyed_world)) =
     [''--- Starting Agent ---'',
      ''--- Calling Wikipedia Tool with query: Alan Turing ---'',
      ''--- Calling Add Tool with: a=<float>, b=<float> ---'',
      newline @ ''--- Final Answer ---'',
      ''Alan Turing was a British mathematician, computer scientist, logician, cryptanalyst, philosopher, and theoretical biologist. He was highly influential in the development of theoretical computer science.'',
      newline @ ''--- Agent Finished ---'',
      ''Could not find '_react_chat_formatter' or 'get_system_prompt' on the agent worker.'',
      ''Agent's internal structure might differ based on LlamaIndex version.'',
      ''Try inspecting agent_worker attributes: []'']"
  by code_simp


section \<open>The introspection block\<close>

lemma only_prints_probe: "only_prints (probe r)"
  by (simp add: only_prints_def probe_def)

lemma only_prints_say: "only_prints (say s)"
  by (simp add: only_prints_def say_def print_def)

lemma only_prints_bindE:
  assumes "only_prints m" and "\<And>x. only_prints (f x)"
  shows "only_prints (bindE m f)"
  unfolding only_prints_def
proof
  fix w
  obtain w1 r where mw: "m w = (w1, r)" by (cases "m w")
  have m1: "environ w1 = environ w \<and> dotenv w1 = dotenv w \<and> events w1 = events w
      \<and> prefix (stdout w) (stdout w1)"
    using assms(1) mw unfolding only_prints_def by (metis fst_conv)
  show "environ (fst (bindE m f w)) = environ w \<and> dotenv (fst (bindE m f w)) = dotenv w
      \<and> events (fst (bindE m f w)) = events w \<and> prefix (stdout w) (stdout (fst (bindE m f w)))"
  proof (cases r)
    case (Inl e)
    then show ?thesis using mw m1 by (simp add: bindE_def)
  next
    case (Inr x)
    have "environ (fst (f x w1)) = environ w1 \<and> dotenv (fst (f x w1)) = dotenv w1
      \<and> events (fst (f x w1)) = events w1 \<and> prefix (stdout w1) (stdout (fst (f x w1)))"
      using assms(2)[of x] unfolding only_prints_def by blast
    then show ?thesis using mw m1 Inr by (auto simp: bindE_def intro: prefix_order.trans)
  qed
qed

lemma only_prints_print_obj: "only_prints (print_obj obj)"
  unfolding print_obj_def by (intro only_prints_bindE only_prints_probe only_prints_say)

lemma prints_on_success_say: "prints_on_success (say s)"
  by (simp add: prints_on_success_def only_prints_say) (simp add: say_def print_def)

lemma prints_on_success_bindE:
  assumes "only_prints m" and "\<And>x. prints_on_success (f x)"
  shows "prints_on_success (bindE m f)"
  unfolding prints_on_success_def
proof (intro conjI allI impI)
  show "only_prints (bindE m f)"
    using assms by (intro only_prints_bindE) (simp_all add: prints_on_success_def)
next
  fix w y
  assume ok: "snd (bindE m f w) = Inr y"
  obtain w1 r where mw: "m w = (w1, r)" by (cases "m w")
  have m1: "prefix (stdout w) (stdout w1)"
    using assms(1) mw unfolding only_prints_def by (metis fst_conv)
  from ok mw obtain x where r: "r = Inr x"
    by (cases r) (simp_all add: bindE_def)
  have fx: "snd (f x w1) = Inr y" using ok mw r by (simp add: bindE_def)
  have "length (stdout w1) < length (stdout (fst (f x w1)))"
    using assms(2)[of x] fx unfolding prints_on_success_def by blast
  moreover have "length (stdout w) \<le> length (stdout w1)"
    using m1 by (rule prefix_length_le)
  ultimately show "length (stdout w) < length (stdout (fst (bindE m f w)))"
    using mw r by (simp add: bindE_def)
qed

lemma prints_on_success_if:
  "prints_on_success a \<Longrightarrow> prints_on_success b \<Longrightarrow> prints_on_success (if c then a else b)"
  by simp

lemma introspection_body_prints: "prints_on_success (introspection_body agent)"
  unfolding introspection_body_def
  by (intro prints_on_success_bindE prints_on_success_if prints_on_success_say
      only_prints_probe only_prints_say only_prints_print_obj)

lemma AttributeError_is_Exception: "is_AttributeError e \<Longrightarrow> is_Exception e"
  by (simp add: is_AttributeError_def is_Exception_def)

lemma hasattr_present: "py_getattr obj name = Inr v \<Longrightarrow> hasattr obj name = Inr True"
  by (simp add: hasattr_def)

lemma hasattr_absent:
  "py_getattr obj name = Inl e \<Longrightarrow> is_AttributeError e \<Longrightarrow> hasattr obj name = Inr False"
  by (simp add: hasattr_def)

lemma introspection_normal:
  "introspection_body agent w = (w1, Inr u) \<Longrightarrow> introspection agent w = (w1, Inr ())"
  by (simp add: introspection_def)

lemma introspection_AttributeError:
  assumes "introspection_body agent w = (w1, Inl e)" "is_AttributeError e" "exn_str e = Inr msg"
  shows "introspection agent w =
    (w1\<lparr>stdout := stdout w1
        @ [newline @ ''Error accessing internal agent attributes: '' @ msg,
           ''This often happens if LlamaIndex internal structure has changed between versions.'',
           ''Try inspecting the agent object directly:'']\<rparr>, Inr ())"
  using assms
  by (simp add: introspection_def on_AttributeError_def bindE_def probe_def say_def print_def)

lemma introspection_other_Exception:
  assumes "introspection_body agent w = (w1, Inl e)" "\<not> is_AttributeError e" "is_Exception e"
    "exn_str e = Inr msg"
  shows "introspection agent w =
    (w1\<lparr>stdout := stdout w1 @ [newline @ ''An unexpected error occurred: '' @ msg]\<rparr>, Inr ())"
  using assms
  by (simp add: introspection_def on_Exception_def bindE_def probe_def say_def print_def)

lemma introspection_handler_fails:
  assumes "introspection_body agent w = (w1, Inl e)" "is_Exception e" "exn_str e = Inl e'"
  shows "introspection agent w = (w1, Inl e')"
  using assms
  by (simp add: introspection_def on_Exception_def on_AttributeError_def bindE_def probe_def)

lemma introspection_not_caught:
  assumes "introspection_body agent w = (w1, Inl e)" "\<not> is_Exception e"
  shows "introspection agent w = (w1, Inl e)"
  using assms AttributeError_is_Exception[of e]
  by (auto simp: introspection_def)

lemma introspection_no_formatter_no_method:
  assumes "py_getattr agent ''agent_worker'' = Inr worker"
    "hasattr worker ''_react_chat_formatter'' = Inr False"
    "hasattr worker ''get_system_prompt'' = Inr False"
    "py_dir worker = Inr names"
  shows "introspection agent w =
    (w\<lparr>stdout := stdout w
        @ [''Could not find '_react_chat_formatter' or 'get_system_prompt' on the agent worker.'',
           ''Agent's internal structure might differ based on LlamaIndex version.'',
           ''Try inspecting agent_worker attributes: '' @ names]\<rparr>, Inr ())"
  using assms
  by (simp add: introspection_def introspection_body_def bindE_def probe_def say_def print_def)

lemma introspection_no_header:
  assumes "py_getattr agent ''agent_worker'' = Inr worker"
    "py_getattr worker ''_react_chat_formatter'' = Inr formatter"
    "hasattr formatter ''system_header'' = Inr False"
    "py_dir formatter = Inr names"
  shows "introspection agent w =
    (w\<lparr>stdout := stdout w
        @ [''Could not find 'system_header' attribute on the formatter.'',
           ''Agent's internal structure might have changed.'',
           ''Try inspecting formatter attributes: '' @ names]\<rparr>, Inr ())"
  using assms hasattr_present[OF assms(2)]
  by (simp add: introspection_def introspection_body_def bindE_def probe_def say_def print_def)

lemma introspection_no_description:
  assumes "py_getattr agent ''agent_worker'' = Inr worker"
    "py_getattr worker ''_react_chat_formatter'' = Inr formatter"
    "py_getattr formatter ''system_header'' = Inr header"
    "py_str header = Inr prompt"
    "hasattr formatter ''_get_tool_description'' = Inr False"
  shows "introspection agent w =
    (w\<lparr>stdout := stdout w
        @ [newline @ ''--- System Prompt ---'', prompt, ''---------------------'' @ newline,
           ''(Could not find method to get formatted tool description)'']\<rparr>, Inr ())"
  using assms hasattr_present[OF assms(2)] hasattr_present[OF assms(3)]
  by (simp add: introspection_def introspection_body_def bindE_def probe_def say_def print_def
      print_obj_def)

lemma introspection_no_worker:
  assumes "py_getattr agent ''agent_worker'' = Inl e" "is_AttributeError e" "exn_str e = Inr msg"
  shows "introspection agent w =
    (w\<lparr>stdout := stdout w
        @ [newline @ ''Error accessing internal agent attributes: '' @ msg,
           ''This often happens if LlamaIndex internal structure has changed between versions.'',
           ''Try inspecting the agent object directly:'']\<rparr>, Inr ())"
proof -
  have "introspection_body agent w = (w, Inl e)"
    using assms(1) by (simp add: introspection_body_def bindE_def probe_def)
  then show ?thesis
    using assms(2,3) by (rule introspection_AttributeError)
qed


lemma introspection_body_frame:
  assumes "introspection_body agent w = (w1, r)"
  shows "\<exists>out. w1 = w\<lparr>stdout := stdout w @ out\<rparr> \<and> (r = Inr () \<longrightarrow> out \<noteq> [])"
proof -
  have frame: "environ w1 = environ w" "dotenv w1 = dotenv w" "events w1 = events w"
      "prefix (stdout w) (stdout w1)"
    using introspection_body_prints[of agent] assms
    unfolding prints_on_success_def only_prints_def by (metis fst_conv)+
  from frame(4) obtain out where out: "stdout w1 = stdout w @ out"
    by (auto simp: prefix_def)
  have "w1 = w\<lparr>stdout := stdout w @ out\<rparr>"
    using frame(1-3) out by (intro world.equality) simp_all
  moreover have "out \<noteq> []" if "r = Inr ()"
  proof -
    have "length (stdout w) < length (stdout w1)"
      using introspection_body_prints[of agent] assms that
      unfolding prints_on_success_def by (metis fst_conv snd_conv)
    then show ?thesis using out by auto
  qed
  ultimately show ?thesis by blast
qed

text \<open>
  C3, as stated, fails: not every exception raised while probing is caught. On an agent
  object whose attribute access is cut short by \<^verbatim>\<open>KeyboardInterrupt\<close>, neither handler
  applies and the exception leaves the block.
\<close>

theorem introspection_counterexample:
  "py_getattr interrupted ''agent_worker'' = Inl (Exn KeyboardInterrupt (Inr []))
   \<and> introspection interrupted fresh_world = (fresh_world, Inl (Exn KeyboardInterrupt (Inr [])))"
  by (simp add: interrupted_def introspection_def introspection_body_def bindE_def probe_def
      is_AttributeError_def is_Exception_def)

text \<open>
  C3, amended. Let the probing (the body of the \<^verbatim>\<open>try\<close> block) end in state \<open>w1\<close> with
  outcome \<open>r\<close>. Then, for every agent object and state:
  \<^item> the probing has changed nothing but standard output, by writing \<open>out\<close> to it, and
    has written something when it raised nothing;
  \<^item> when it raised nothing, the block ends normally;
  \<^item> when it raised an \<^verbatim>\<open>AttributeError\<close> whose text can be formed, the block prints the
    three lines of the first handler, the first with that text, and ends normally;
  \<^item> when it raised another instance of \<^verbatim>\<open>Exception\<close> whose text can be formed, the
    block prints the line of the second handler with that text and ends normally;
  \<^item> when forming the text of a caught exception raises, that exception leaves the
    block;
  \<^item> an exception that is not an instance of \<^verbatim>\<open>Exception\<close> is not caught and leaves the
    block;
  \<^item> a worker with neither the formatter nor the prompt method, a formatter without
    \<^verbatim>\<open>system_header\<close>, and a formatter without \<^verbatim>\<open>_get_tool_description\<close> are each
    reported by the lines of their branch, and the block ends normally.
  The block is the last statement of the script, so ending normally is reaching the
  program's end.
\<close>

theorem introspection_outcomes:
  assumes "introspection_body agent w = (w1, r)"
  shows
    "(\<exists>out. w1 = w\<lparr>stdout := stdout w @ out\<rparr> \<and> (r = Inr () \<longrightarrow> out \<noteq> []))
     \<and> (r = Inr () \<longrightarrow> introspection agent w = (w1, Inr ()))
     \<and> (r = Inl e \<and> is_AttributeError e \<and> exn_str e = Inr msg \<longrightarrow>
          introspection agent w =
            (w1\<lparr>stdout := stdout w1
                @ [newline @ ''Error accessing internal agent attributes: '' @ msg,
                   ''This often happens if LlamaIndex internal structure has changed between versions.'',
                   ''Try inspecting the agent object directly:'']\<rparr>, Inr ()))
     \<and> (r = Inl e \<and> \<not> is_AttributeError e \<and> is_Exception e \<and> exn_str e = Inr msg \<longrightarrow>
          introspection agent w =
            (w1\<lparr>stdout := stdout w1 @ [newline @ ''An unexpected error occurred: '' @ msg]\<rparr>,
             Inr ()))
     \<and> (r = Inl e \<and> is_Exception e \<and> exn_str e = Inl e' \<longrightarrow>
          introspection agent w = (w1, Inl e'))
     \<and> (r = Inl e \<and> \<not> is_Exception e \<longrightarrow> introspection agent w = (w1, Inl e))
     \<and> (py_getattr agent ''agent_worker'' = Inr worker
          \<and> hasattr worker ''_react_chat_formatter'' = Inr False
          \<and> hasattr worker ''get_system_prompt'' = Inr False
          \<and> py_dir worker = Inr names \<longrightarrow>
          introspection agent w =
            (w\<lparr>stdout := stdout w
                @ [''Could not find '_react_chat_formatter' or 'get_system_prompt' on the agent worker.'',
                   ''Agent's internal structure might differ based on LlamaIndex version.'',
                   ''Try inspecting agent_worker attributes: '' @ names]\<rparr>, Inr ()))
     \<and> (py_getattr agent ''agent_worker'' = Inr worker
          \<and> py_getattr worker ''_react_chat_formatter'' = Inr formatter
          \<and> hasattr formatter ''system_header'' = Inr False
          \<and> py_dir formatter = Inr names \<longrightarrow>
          introspection agent w =
            (w\<lparr>stdout := stdout w
                @ [''Could not find 'system_header' attribute on the formatter.'',
                   ''Agent's internal structure might have changed.'',
                   ''Try inspecting formatter attributes: '' @ names]\<rparr>, Inr ()))
     \<and> (py_getattr agent ''agent_worker'' = Inr worker
          \<and> py_getattr worker ''_react_chat_formatter'' = Inr formatter
          \<and> py_getattr formatter ''system_header'' = Inr header
          \<and> py_str header = Inr prompt
          \<and> hasattr formatter ''_get_tool_description'' = Inr False \<longrightarrow>
          introspection agent w =
            (w\<lparr>stdout := stdout w
                @ [newline @ ''--- System Prompt ---'', prompt, ''---------------------'' @ newline,
                   ''(Could not find method to get formatted tool description)'']\<rparr>, Inr ()))"
proof (intro conjI impI)
  show "\<exists>out. w1 = w\<lparr>stdout := stdout w @ out\<rparr> \<and> (r = Inr () \<longrightarrow> out \<noteq> [])"
    using assms by (rule introspection_body_frame)
next
  assume "r = Inr ()"
  then show "introspection agent w = (w1, Inr ())"
    using assms by (simp add: introspection_normal)
next
  assume "r = Inl e \<and> is_AttributeError e \<and> exn_str e = Inr msg"
  then show "introspection agent w =
      (w1\<lparr>stdout := stdout w1
          @ [newline @ ''Error accessing internal agent attributes: '' @ msg,
             ''This often happens if LlamaIndex internal structure has changed between versions.'',
             ''Try inspecting the agent object directly:'']\<rparr>, Inr ())"
    using assms introspection_AttributeError[of agent w w1 e msg] by simp
next
  assume "r = Inl e \<and> \<not> is_AttributeError e \<and> is_Exception e \<and> exn_str e = Inr msg"
  then show "introspection agent w =
      (w1\<lparr>stdout := stdout w1 @ [newline @ ''An unexpected error occurred: '' @ msg]\<rparr>, Inr ())"
    using assms introspection_other_Exception[of agent w w1 e msg] by simp
next
  assume "r = Inl e \<and> is_Exception e \<and> exn_str e = Inl e'"
  then show "introspection agent w = (w1, Inl e')"
    using assms introspection_handler_fails[of agent w w1 e e'] by simp
next
  assume "r = Inl e \<and> \<not> is_Exception e"
  then show "introspection agent w = (w1, Inl e)"
    using assms introspection_not_caught[of agent w w1 e] by simp
next
  assume "py_getattr agent ''agent_worker'' = Inr worker
      \<and> hasattr worker ''_react_chat_formatter'' = Inr False
      \<and> hasattr worker ''get_system_prompt'' = Inr False
      \<and> py_dir worker = Inr names"
  then show "introspection agent w =
      (w\<lparr>stdout := stdout w
          @ [''Could not find '_react_chat_formatter' or 'get_system_prompt' on the agent worker.'',
             ''Agent's internal structure might differ based on LlamaIndex version.'',
             ''Try inspecting agent_worker attributes: '' @ names]\<rparr>, Inr ())"
    using introspection_no_formatter_no_method[of agent worker names w] by simp
next
  assume "py_getattr agent ''agent_worker'' = Inr worker
      \<and> py_getattr worker ''_react_chat_formatter'' = Inr formatter
      \<and> hasattr formatter ''system_header'' = Inr False
      \<and> py_dir formatter = Inr names"
  then show "introspection agent w =
      (w\<lparr>stdout := stdout w
          @ [''Could not find 'system_header' attribute on the formatter.'',
             ''Agent's internal structure might have changed.'',
             ''Try inspecting formatter attributes: '' @ names]\<rparr>, Inr ())"
    using introspection_no_header[of agent worker formatter names w] by simp
next
  assume "py_getattr agent ''agent_worker'' = Inr worker
      \<and> py_getattr worker ''_react_chat_formatter'' = Inr formatter
      \<and> py_getattr formatter ''system_header'' = Inr header
      \<and> py_str header = Inr prompt
      \<and> hasattr formatter ''_get_tool_description'' = Inr False"
  then show "introspection agent w =
      (w\<lparr>stdout := stdout w
          @ [newline @ ''--- System Prompt ---'', prompt, ''---------------------'' @ newline,
             ''(Could not find method to get formatted tool description)'']\<rparr>, Inr ())"
    using introspection_no_description[of agent worker formatter header prompt w] by simp
qed

theorem introspection_outcomes_witness:
  "introspection (text_obj ''<agent>'') fresh_world =
     (fresh_world\<lparr>stdout :=
        [newline @ ''Error accessing internal agent attributes: object has no attribute agent_worker'',
         ''This often happens if LlamaIndex internal structure has changed between versions.'',
         ''Try inspecting the agent object directly:'']\<rparr>, Inr ())
   \<and> introspection agent_failing fresh_world =
     (fresh_world\<lparr>stdout := [newline @ ''An unexpected error occurred: connection lost'']\<rparr>, Inr ())
   \<and> introspection agent_unprintable fresh_world = (fresh_world, Inl (Exn ValueError (Inr ''bad __str__'')))
   \<and> introspection agent_exiting fresh_world = (fresh_world, Inl (Exn SystemExit (Inr ''1'')))
   \<and> introspection agent_with_bare_worker fresh_world =
     (fresh_world\<lparr>stdout :=
        [''Could not find '_react_chat_formatter' or 'get_system_prompt' on the agent worker.'',
         ''Agent's internal structure might differ based on LlamaIndex version.'',
         ''Try inspecting agent_worker attributes: []'']\<rparr>, Inr ())
   \<and> introspection agent_without_header fresh_world =
     (fresh_world\<lparr>stdout :=
        [''Could not find 'system_header' attribute on the formatter.'',
         ''Agent's internal structure might have changed.'',
         ''Try inspecting formatter attributes: '']\<rparr>, Inr ())
   \<and> introspection agent_without_description fresh_world =
     (fresh_world\<lparr>stdout :=
        [newline @ ''--- System Prompt ---'', ''You are designed to help.'',
         ''---------------------'' @ newline,
         ''(Could not find method to get formatted tool description)'']\<rparr>, Inr ())"
proof -
  note defs = text_obj_def obj_with_def agent_failing_def agent_unprintable_def unprintable_def
    agent_exiting_def agent_with_bare_worker_def agent_without_header_def
    agent_without_description_def hasattr_def is_AttributeError_def is_Exception_def
  note run = introspection_body_def bindE_def probe_def say_def print_def print_obj_def
  have b1: "introspection_body (text_obj ''<agent>'') fresh_world =
      (fresh_world, Inl (Exn AttributeError (Inr ''object has no attribute agent_worker'')))"
    by (simp add: defs run)
  have c1: "introspection (text_obj ''<agent>'') fresh_world =
     (fresh_world\<lparr>stdout :=
        [newline @ ''Error accessing internal agent attributes: object has no attribute agent_worker'',
         ''This often happens if LlamaIndex internal structure has changed between versions.'',
         ''Try inspecting the agent object directly:'']\<rparr>, Inr ())"
    using introspection_outcomes[OF b1,
        where e = "Exn AttributeError (Inr ''object has no attribute agent_worker'')"
          and msg = "''object has no attribute agent_worker''"]
    by (simp add: is_AttributeError_def fresh_world_def)
  have b2: "introspection_body agent_failing fresh_world =
      (fresh_world, Inl (Exn Other_Exception (Inr ''connection lost'')))"
    by (simp add: defs run)
  have c2: "introspection agent_failing fresh_world =
     (fresh_world\<lparr>stdout := [newline @ ''An unexpected error occurred: connection lost'']\<rparr>, Inr ())"
    using introspection_outcomes[OF b2,
        where e = "Exn Other_Exception (Inr ''connection lost'')" and msg = "''connection lost''"]
    by (simp add: is_AttributeError_def is_Exception_def fresh_world_def)
  have b3: "introspection_body agent_unprintable fresh_world = (fresh_world, Inl unprintable)"
    by (simp add: agent_unprintable_def hasattr_def run)
  have c3: "introspection agent_unprintable fresh_world =
      (fresh_world, Inl (Exn ValueError (Inr ''bad __str__'')))"
    using introspection_outcomes[OF b3,
        where e = unprintable and e' = "Exn ValueError (Inr ''bad __str__'')"]
    by (simp add: unprintable_def is_Exception_def)
  have b4: "introspection_body agent_exiting fresh_world =
      (fresh_world, Inl (Exn SystemExit (Inr ''1'')))"
    by (simp add: defs run)
  have c4: "introspection agent_exiting fresh_world = (fresh_world, Inl (Exn SystemExit (Inr ''1'')))"
    using introspection_outcomes[OF b4, where e = "Exn SystemExit (Inr ''1'')"]
    by (simp add: is_Exception_def)
  obtain w5 r5 where b5: "introspection_body agent_with_bare_worker fresh_world = (w5, r5)"
    by (cases "introspection_body agent_with_bare_worker fresh_world")
  have c5: "introspection agent_with_bare_worker fresh_world =
     (fresh_world\<lparr>stdout :=
        [''Could not find '_react_chat_formatter' or 'get_system_prompt' on the agent worker.'',
         ''Agent's internal structure might differ based on LlamaIndex version.'',
         ''Try inspecting agent_worker attributes: []'']\<rparr>, Inr ())"
    using introspection_outcomes[OF b5, where worker = "text_obj ''<worker>''" and names = "''[]''"]
    by (simp add: agent_with_bare_worker_def text_obj_def hasattr_def is_AttributeError_def
        fresh_world_def)
  obtain w6 r6 where b6: "introspection_body agent_without_header fresh_world = (w6, r6)"
    by (cases "introspection_body agent_without_header fresh_world")
  have c6: "introspection agent_without_header fresh_world =
     (fresh_world\<lparr>stdout :=
        [''Could not find 'system_header' attribute on the formatter.'',
         ''Agent's internal structure might have changed.'',
         ''Try inspecting formatter attributes: '']\<rparr>, Inr ())"
    using introspection_outcomes[OF b6,
        where worker = "obj_with [(''_react_chat_formatter'', obj_with [] ''<formatter>'')] ''<worker>''"
          and formatter = "obj_with [] ''<formatter>''" and names = "[]"]
    by (simp add: agent_without_header_def obj_with_def hasattr_def is_AttributeError_def
        fresh_world_def)
  obtain w7 r7 where b7: "introspection_body agent_without_description fresh_world = (w7, r7)"
    by (cases "introspection_body agent_without_description fresh_world")
  have c7: "introspection agent_without_description fresh_world =
     (fresh_world\<lparr>stdout :=
        [newline @ ''--- System Prompt ---'', ''You are designed to help.'',
         ''---------------------'' @ newline,
         ''(Could not find method to get formatted tool description)'']\<rparr>, Inr ())"
    using introspection_outcomes[OF b7,
        where worker = "obj_with [(''_react_chat_formatter'',
            obj_with [(''system_header'', obj_with [] ''You are designed to help.'')] ''<formatter>'')]
            ''<worker>''"
          and formatter = "obj_with [(''system_header'', obj_with [] ''You are designed to help.'')]
            ''<formatter>''"
          and header = "obj_with [] ''You are designed to help.''"
          and prompt = "''You are designed to help.''"]
    by (simp add: agent_without_description_def obj_with_def hasattr_def is_AttributeError_def
        fresh_world_def)
  show ?thesis
    using c1 c2 c3 c4 c5 c6 c7 by (intro conjI)
qed

text \<open>What is printed when every attribute is there.\<close>

lemma introspection_complete_example:
  "stdout (fst (introspection agent_complete fresh_world)) =
     [newline @ ''--- System Prompt ---'', ''You are designed to help.'',
      ''---------------------'' @ newline,
      newline @ ''--- Generated Tool Description (Part of Prompt) ---'',
      ''> Tool Name: add_numbers'',
      ''----------------------------------------------------'' @ newline]"
  "snd (introspection agent_complete fresh_world) = Inr ()"
  by code_simp+

end
